theory Spec2Isabelle
  imports Main "HOL-Library.Multiset"
begin

section \<open>Request parameters: Go's \<open>url.Values\<close>\<close>

text \<open>
  \<open>url.Values\<close> is \<open>map[string][]string\<close>. The client only uses three of its methods:
  \<open>Set\<close> replaces the value list of a key by a one-element list, \<open>Get\<close> returns the first
  value of a key or the empty string, \<open>Del\<close> removes the key.
\<close>

type_synonym Values = "string \<rightharpoonup> string list"

definition Values_Set :: "Values \<Rightarrow> string \<Rightarrow> string \<Rightarrow> Values" where
  "Values_Set v key val = v(key \<mapsto> [val])"

definition Values_Get :: "Values \<Rightarrow> string \<Rightarrow> string" where
  "Values_Get v key = (case v key of None \<Rightarrow> [] | Some [] \<Rightarrow> [] | Some (x # _) \<Rightarrow> x)"

definition Values_Del :: "Values \<Rightarrow> string \<Rightarrow> Values" where
  "Values_Del v key = v(key := None)"

section \<open>The client\<close>

text \<open>
  The HTTP side of the client is what \<open>DownloadFile\<close> touches: a request is a method and
  a URL, a response carries its status code and what reading its body to the end gives.
  Errors of the library calls are opaque strings.
\<close>

type_synonym go_error = string

record Request =
  Method :: string
  URL :: string

record Response =
  StatusCode :: int
  Body :: "go_error + string"

text \<open>
  \<open>http.Client.Do\<close>: the answer of the network to a request. The field \<open>httpClient\<close> is a
  pointer and may be nil (\<open>None\<close>); the logger is an interface without state of interest.
\<close>

type_synonym http_Client = "Request \<Rightarrow> go_error + Response"

record Client =
  token :: string
  url :: string
  baseURL :: string
  filesTrailURL :: string
  httpClient :: "http_Client option"
  nextOffset :: int
  bufferSize :: int
  timeout :: int
  updatesParams :: "Values option"

text \<open>
  \<open>NewClient\<close> fills five fields (and the no-op logger); the others keep Go's zero value:
  \<open>0\<close> for the integers, nil for the map. The two \<open>Sprintf\<close> calls only substitute strings
  for \<open>%s\<close>.
\<close>

definition NewClient :: "string \<Rightarrow> http_Client option \<Rightarrow> string \<Rightarrow> Client" where
  "NewClient tok hc base =
     \<lparr> token = tok,
       url = (base @ ''/bot'' @ tok @ ''/'') @ ''%s'',
       baseURL = base,
       filesTrailURL = ''%s/file/bot%s/%s'',
       httpClient = hc,
       nextOffset = 0,
       bufferSize = 0,
       timeout = 0,
       updatesParams = None \<rparr>"

section \<open>Multipart payloads and send options\<close>

record inputFile =
  field :: string
  name :: string

text \<open>
  \<open>multipartFilesWriter\<close> is an interface with two implementations: \<open>files\<close>, a list of
  named files, and \<open>readers\<close>, a map from form field to an \<open>io.Reader\<close> (of an abstract
  type \<open>'rd\<close> here).
\<close>

datatype 'rd multipartFilesWriter =
    files "inputFile list"
  | readers "string \<rightharpoonup> 'rd"

definition files_Add :: "inputFile list \<Rightarrow> inputFile \<Rightarrow> inputFile list" where
  "files_Add m f = m @ [f]"

definition newMultipartReaders :: "string \<rightharpoonup> 'rd" where
  "newMultipartReaders = Map.empty"

definition readers_Add :: "(string \<rightharpoonup> 'rd) \<Rightarrow> string \<Rightarrow> 'rd \<Rightarrow> (string \<rightharpoonup> 'rd)" where
  "readers_Add m fld r = m(fld \<mapsto> r)"

text \<open>
  A \<open>SendOption\<close> is any function that mutates the parameter map; the model returns the
  new map. The loop \<open>for _, opt := range opts { opt(req) }\<close> of every request builder is
  \<open>apply_opts\<close>. A nil option, on which the loop panics, is not among the model's
  options.
\<close>

type_synonym SendOption = "Values \<Rightarrow> Values"

definition apply_opts :: "Values \<Rightarrow> SendOption list \<Rightarrow> Values" where
  "apply_opts req opts = foldl (\<lambda>r opt. opt r) req opts"

section \<open>The transport\<close>

text \<open>
  \<open>doRequest\<close> and \<open>doRequestWithFiles\<close> are methods of the client that perform the remote
  call; the request builders end in one of them and return what it returns. They are
  parameters of the model, with an arbitrary result type \<open>'r\<close>.
\<close>

record ('r, 'rd) Transport =
  doRequest :: "Client \<Rightarrow> string \<Rightarrow> Values \<Rightarrow> 'r"
  doRequestWithFiles :: "Client \<Rightarrow> string \<Rightarrow> Values \<Rightarrow> 'rd multipartFilesWriter \<Rightarrow> 'r"

text \<open>The transport that returns the call it was asked to make.\<close>

datatype 'rd call =
    DoRequest string Values
  | DoRequestWithFiles string Values "'rd multipartFilesWriter"

definition recording :: "('rd call, 'rd) Transport" where
  "recording =
     \<lparr> doRequest = (\<lambda>c m v. DoRequest m v),
       doRequestWithFiles = (\<lambda>c m v w. DoRequestWithFiles m v w) \<rparr>"

fun call_method :: "'rd call \<Rightarrow> string" where
  "call_method (DoRequest m v) = m"
| "call_method (DoRequestWithFiles m v w) = m"

fun call_params :: "'rd call \<Rightarrow> Values" where
  "call_params (DoRequest m v) = v"
| "call_params (DoRequestWithFiles m v w) = v"

fun call_files :: "'rd call \<Rightarrow> inputFile list" where
  "call_files (DoRequest m v) = []"
| "call_files (DoRequestWithFiles m v (files fs)) = fs"
| "call_files (DoRequestWithFiles m v (readers rs)) = []"

section \<open>Webhook registration\<close>

definition setWebhook :: "('r, 'rd) Transport \<Rightarrow> Client \<Rightarrow> string \<Rightarrow> 'r" where
  "setWebhook T c webhookURL =
     (let req = Map.empty;
          req = Values_Set req ''url'' webhookURL
      in doRequest T c ''setWebhook'' req)"

definition deleteWebhook :: "('r, 'rd) Transport \<Rightarrow> Client \<Rightarrow> 'r" where
  "deleteWebhook T c = doRequest T c ''deleteWebhook'' Map.empty"


text \<open>
  Modelled from the spec: the remote service's side of "set webhook" and "delete webhook",
  which is not part of the repository. Its state is the registered webhook URL, if any.
\<close>

definition simulated_remote ::
  "(string option \<Rightarrow> go_error option \<times> string option, unit) Transport" where
  "simulated_remote =
     \<lparr> doRequest = (\<lambda>c m v s.
         if m = ''setWebhook'' then (None, Some (Values_Get v ''url''))
         else if m = ''deleteWebhook'' then (None, None)
         else (Some ''unknown method'', s)),
       doRequestWithFiles = (\<lambda>c m v w s. (Some ''unknown method'', s)) \<rparr>"



section \<open>Predefined send options\<close>

text \<open>
  Every predefined option of the client is a closure whose body is one \<open>Set\<close> on the
  parameter map; \<open>setting key val\<close> is that form. The definitions follow in the order of
  the source. Where the value comes from \<open>json.Marshal\<close> (whose error is dropped), from
  \<open>time.Time.Unix\<close> or from \<open>time.Duration.Seconds\<close> and the conversion to \<open>int\<close>, that
  library function is a parameter of the option.
\<close>

definition setting :: "string \<Rightarrow> string \<Rightarrow> SendOption" where
  "setting key val = (\<lambda>r. Values_Set r key val)"

text \<open>
  \<open>strconv.Itoa\<close>, and \<open>fmt.Sprint\<close> on an \<open>int\<close> and on a \<open>bool\<close>. Go's \<open>int\<close> is
  bounded; the model prints any integer.
\<close>

fun decimal :: "nat \<Rightarrow> string" where
  "decimal n =
     (if n < 10 then [''0123456789'' ! n]
      else decimal (n div 10) @ [''0123456789'' ! (n mod 10)])"

declare decimal.simps [simp del]

definition strconv_Itoa :: "int \<Rightarrow> string" where
  "strconv_Itoa i = (if i < 0 then CHR ''-'' # decimal (nat (- i)) else decimal (nat i))"

definition fmt_Sprint_int :: "int \<Rightarrow> string" where
  "fmt_Sprint_int i = strconv_Itoa i"

definition fmt_Sprint_bool :: "bool \<Rightarrow> string" where
  "fmt_Sprint_bool b = (if b then ''true'' else ''false'')"

definition structString :: "('a \<Rightarrow> string) \<Rightarrow> 'a \<Rightarrow> string" where
  "structString json_Marshal s = (let str = json_Marshal s in str)"

record forceReply =
  ForceReply :: bool
  Selective :: bool

record replyKeyboardRemove =
  RemoveKeyboard :: bool
  Selective :: bool

definition OptParseModeHTML :: SendOption where
  "OptParseModeHTML = (\<lambda>r. Values_Set r ''parse_mode'' ''HTML'')"

definition OptParseModeMarkdown :: SendOption where
  "OptParseModeMarkdown = (\<lambda>r. Values_Set r ''parse_mode'' ''Markdown'')"

definition OptDisableNotification :: SendOption where
  "OptDisableNotification = (\<lambda>r. Values_Set r ''disable_notification'' ''true'')"

definition OptReplyToMessageID :: "int \<Rightarrow> SendOption" where
  "OptReplyToMessageID id' = (\<lambda>r. Values_Set r ''reply_to_message_id'' (strconv_Itoa id'))"

definition OptDisableWebPagePreview :: SendOption where
  "OptDisableWebPagePreview = (\<lambda>r. Values_Set r ''disable_web_page_preview'' ''true'')"

definition OptInlineKeyboardMarkup :: "('j \<Rightarrow> string) \<Rightarrow> 'j \<Rightarrow> SendOption" where
  "OptInlineKeyboardMarkup marshal markup =
     (\<lambda>r. Values_Set r ''reply_markup'' (structString marshal markup))"

definition OptReplyKeyboardMarkup :: "('j \<Rightarrow> string) \<Rightarrow> 'j \<Rightarrow> SendOption" where
  "OptReplyKeyboardMarkup marshal markup =
     (\<lambda>r. Values_Set r ''reply_markup'' (structString marshal markup))"

definition OptReplyKeyboardRemove :: "(replyKeyboardRemove \<Rightarrow> string) \<Rightarrow> SendOption" where
  "OptReplyKeyboardRemove marshal =
     (\<lambda>r. Values_Set r ''reply_markup''
        (structString marshal \<lparr> RemoveKeyboard = True, Selective = False \<rparr>))"

definition OptReplyKeyboardRemoveSelective :: "(replyKeyboardRemove \<Rightarrow> string) \<Rightarrow> SendOption" where
  "OptReplyKeyboardRemoveSelective marshal =
     (\<lambda>r. Values_Set r ''reply_markup''
        (structString marshal \<lparr> RemoveKeyboard = True, Selective = True \<rparr>))"

definition OptForceReply :: "(forceReply \<Rightarrow> string) \<Rightarrow> SendOption" where
  "OptForceReply marshal =
     (\<lambda>r. Values_Set r ''reply_markup''
        (structString marshal \<lparr> ForceReply = True, Selective = False \<rparr>))"

definition OptForceReplySelective :: "(forceReply \<Rightarrow> string) \<Rightarrow> SendOption" where
  "OptForceReplySelective marshal =
     (\<lambda>r. Values_Set r ''reply_markup''
        (structString marshal \<lparr> ForceReply = True, Selective = True \<rparr>))"

definition OptDuration :: "int \<Rightarrow> SendOption" where
  "OptDuration duration = (\<lambda>r. Values_Set r ''duration'' (strconv_Itoa duration))"

definition OptPerformer :: "string \<Rightarrow> SendOption" where
  "OptPerformer performer = (\<lambda>r. Values_Set r ''performer'' performer)"

definition OptTitle :: "string \<Rightarrow> SendOption" where
  "OptTitle title = (\<lambda>r. Values_Set r ''title'' title)"

definition OptCaption :: "string \<Rightarrow> SendOption" where
  "OptCaption caption = (\<lambda>r. Values_Set r ''caption'' caption)"

definition OptWidth :: "int \<Rightarrow> SendOption" where
  "OptWidth width = (\<lambda>r. Values_Set r ''width'' (strconv_Itoa width))"

definition OptHeight :: "int \<Rightarrow> SendOption" where
  "OptHeight height = (\<lambda>r. Values_Set r ''height'' (strconv_Itoa height))"

definition OptSupportsStreaming :: SendOption where
  "OptSupportsStreaming = (\<lambda>r. Values_Set r ''supports_streaming'' ''true'')"

definition OptThumb :: "string \<Rightarrow> SendOption" where
  "OptThumb filename = (\<lambda>v. Values_Set v ''thumb'' filename)"

definition OptLength :: "int \<Rightarrow> SendOption" where
  "OptLength length' = (\<lambda>v. Values_Set v ''length'' (fmt_Sprint_int length'))"

definition OptLivePeriod :: "int \<Rightarrow> SendOption" where
  "OptLivePeriod period = (\<lambda>v. Values_Set v ''live_period'' (fmt_Sprint_int period))"

definition OptFoursquareID :: "string \<Rightarrow> SendOption" where
  "OptFoursquareID foursquareID = (\<lambda>v. Values_Set v ''foursquare_id'' foursquareID)"

definition OptFoursquareType :: "string \<Rightarrow> SendOption" where
  "OptFoursquareType foursquareType = (\<lambda>v. Values_Set v ''foursquare_type'' foursquareType)"

definition OptLastName :: "string \<Rightarrow> SendOption" where
  "OptLastName lastName = (\<lambda>v. Values_Set v ''last_name'' lastName)"

definition OptVCard :: "string \<Rightarrow> SendOption" where
  "OptVCard vCard = (\<lambda>v. Values_Set v ''vcard'' vCard)"

definition OptOffset :: "int \<Rightarrow> SendOption" where
  "OptOffset offset = (\<lambda>v. Values_Set v ''offset'' (fmt_Sprint_int offset))"

definition OptLimit :: "int \<Rightarrow> SendOption" where
  "OptLimit limit = (\<lambda>v. Values_Set v ''limit'' (fmt_Sprint_int limit))"

definition OptUntilDate :: "('t \<Rightarrow> int) \<Rightarrow> 't \<Rightarrow> SendOption" where
  "OptUntilDate Unix date = (\<lambda>v. Values_Set v ''until_date'' (fmt_Sprint_int (Unix date)))"

definition OptText :: "string \<Rightarrow> SendOption" where
  "OptText text = (\<lambda>v. Values_Set v ''text'' text)"

definition OptShowAlert :: SendOption where
  "OptShowAlert = (\<lambda>v. Values_Set v ''show_alert'' ''true'')"

definition OptURL :: "string \<Rightarrow> SendOption" where
  "OptURL u = (\<lambda>v. Values_Set v ''url'' u)"

definition OptCacheTime :: "('d \<Rightarrow> 'f) \<Rightarrow> ('f \<Rightarrow> int) \<Rightarrow> 'd \<Rightarrow> SendOption" where
  "OptCacheTime Seconds to_int d =
     (\<lambda>v. Values_Set v ''cache_time'' (fmt_Sprint_int (to_int (Seconds d))))"

definition OptContainsMasks :: SendOption where
  "OptContainsMasks = (\<lambda>v. Values_Set v ''contains_masks'' ''true'')"

definition OptMaskPosition :: "('j \<Rightarrow> string) \<Rightarrow> 'j \<Rightarrow> SendOption" where
  "OptMaskPosition marshal pos = (\<lambda>v. Values_Set v ''mask_position'' (marshal pos))"

definition OptIsPersonal :: SendOption where
  "OptIsPersonal = (\<lambda>v. Values_Set v ''is_personal'' ''true'')"

definition OptNextOffset :: "string \<Rightarrow> SendOption" where
  "OptNextOffset offset = (\<lambda>v. Values_Set v ''next_offset'' offset)"

definition OptSwitchPmText :: "string \<Rightarrow> SendOption" where
  "OptSwitchPmText text = (\<lambda>v. Values_Set v ''switch_pm_text'' text)"

definition OptSwitchPmParameter :: "string \<Rightarrow> SendOption" where
  "OptSwitchPmParameter param = (\<lambda>v. Values_Set v ''switch_pm_parameter'' param)"

definition OptProviderData :: "string \<Rightarrow> SendOption" where
  "OptProviderData data = (\<lambda>v. Values_Set v ''provider_data'' data)"

definition OptPhotoURL :: "string \<Rightarrow> SendOption" where
  "OptPhotoURL u = (\<lambda>v. Values_Set v ''photo_url'' u)"

definition OptPhotoSize :: "int \<Rightarrow> SendOption" where
  "OptPhotoSize size' = (\<lambda>v. Values_Set v ''photo_size'' (fmt_Sprint_int size'))"

definition OptPhotoWidth :: "int \<Rightarrow> SendOption" where
  "OptPhotoWidth width = (\<lambda>v. Values_Set v ''photo_width'' (fmt_Sprint_int width))"

definition OptPhotoHeight :: "int \<Rightarrow> SendOption" where
  "OptPhotoHeight height = (\<lambda>v. Values_Set v ''photo_height'' (fmt_Sprint_int height))"

definition OptNeedName :: SendOption where
  "OptNeedName = (\<lambda>v. Values_Set v ''need_name'' ''true'')"

definition OptNeedPhoneNumber :: SendOption where
  "OptNeedPhoneNumber = (\<lambda>v. Values_Set v ''need_phone_number'' ''true'')"

definition OptNeedEmail :: SendOption where
  "OptNeedEmail = (\<lambda>v. Values_Set v ''need_email'' ''true'')"

definition OptNeedShippingAddress :: SendOption where
  "OptNeedShippingAddress = (\<lambda>v. Values_Set v ''need_shipping_address'' ''true'')"

definition OptSendPhoneNumberToProvider :: SendOption where
  "OptSendPhoneNumberToProvider = (\<lambda>v. Values_Set v ''send_phone_number_to_provider'' ''true'')"

definition OptSendEmailToProvider :: SendOption where
  "OptSendEmailToProvider = (\<lambda>v. Values_Set v ''send_email_to_provider'' ''true'')"

definition OptIsFlexible :: SendOption where
  "OptIsFlexible = (\<lambda>v. Values_Set v ''is_flexible'' ''true'')"

definition OptShippingOptions :: "('j \<Rightarrow> string) \<Rightarrow> 'j \<Rightarrow> SendOption" where
  "OptShippingOptions marshal options =
     (\<lambda>v. Values_Set v ''shipping_options'' (marshal options))"

definition OptErrorMessage :: "string \<Rightarrow> SendOption" where
  "OptErrorMessage msg = (\<lambda>v. Values_Set v ''error_message'' msg)"

definition OptForce :: SendOption where
  "OptForce = (\<lambda>v. Values_Set v ''force'' ''true'')"

definition OptDisableEditMessage :: SendOption where
  "OptDisableEditMessage = (\<lambda>v. Values_Set v ''disable_edit_message'' ''true'')"

section \<open>The request builders that take options\<close>

text \<open>
  All methods of the client with a variadic \<open>opts ...SendOption\<close>, in the order of the
  source. Each returns what \<open>doRequest\<close> or \<open>doRequestWithFiles\<close> returns (the decoded
  reply and the error). Where the source formats a \<open>float64\<close> with \<open>fmt.Sprint\<close> or
  encodes a value with \<open>json.Marshal\<close> (whose error it drops), the formatter is the
  parameter \<open>sprint\<close> or \<open>marshal\<close>. A pointer argument that the method dereferences is an
  option: on nil the method panics (\<open>None\<close>) at the first field read.
\<close>

record Restrictions =
  CanSendMessages :: bool
  CanSendMediaMessages :: bool
  CanSendOtherMessages :: bool
  CanAddWebPagePreviews :: bool

text \<open>
  The declaration of \<open>Invoice\<close> is not among the sources. \<open>SendInvoice\<close> reads four of
  its fields and passes them to \<open>Set\<close>, so they are strings.
\<close>

record Invoice =
  Title :: string
  Description :: string
  StartParameter :: string
  Currency :: string

definition SendMessage ::
  "('r, 'rd) Transport \<Rightarrow> Client \<Rightarrow> string \<Rightarrow> string
   \<Rightarrow> SendOption list \<Rightarrow> 'r" where
  "SendMessage T c chatID text opts =
     (let req = Map.empty;
          req = Values_Set req ''chat_id'' chatID;
          req = Values_Set req ''text'' text;
          req = apply_opts req opts
      in doRequest T c ''sendMessage'' req)"

definition ForwardMessage ::
  "('r, 'rd) Transport \<Rightarrow> Client \<Rightarrow> string \<Rightarrow> string
   \<Rightarrow> int \<Rightarrow> SendOption list \<Rightarrow> 'r" where
  "ForwardMessage T c chatID fromChatID messageID opts =
     (let req = Map.empty;
          req = Values_Set req ''chat_id'' chatID;
          req = Values_Set req ''from_chat_id'' fromChatID;
          req = Values_Set req ''message_id'' (strconv_Itoa messageID);
          req = apply_opts req opts
      in doRequest T c ''forwardMessage'' req)"

definition SendAudio ::
  "('r, 'rd) Transport \<Rightarrow> Client \<Rightarrow> string \<Rightarrow> string
   \<Rightarrow> SendOption list \<Rightarrow> 'r" where
  "SendAudio T c chatID fileID opts =
     (let req = Map.empty;
          req = Values_Set req ''chat_id'' chatID;
          req = Values_Set req ''audio'' fileID;
          req = apply_opts req opts
      in doRequest T c ''sendAudio'' req)"

definition SendAudioFile ::
  "('r, 'rd) Transport \<Rightarrow> Client \<Rightarrow> string \<Rightarrow> string
   \<Rightarrow> SendOption list \<Rightarrow> 'r" where
  "SendAudioFile T c chatID filename opts =
     (let req = Map.empty;
          req = Values_Set req ''chat_id'' chatID;
          req = apply_opts req opts;
          mwf = [];
          mwf = files_Add mwf \<lparr> field = ''audio'', name = filename \<rparr>
      in doRequestWithFiles T c ''sendAudio'' req (files mwf))"

definition SendPhoto ::
  "('r, 'rd) Transport \<Rightarrow> Client \<Rightarrow> string \<Rightarrow> string
   \<Rightarrow> SendOption list \<Rightarrow> 'r" where
  "SendPhoto T c chatID fileID opts =
     (let req = Map.empty;
          req = Values_Set req ''chat_id'' chatID;
          req = Values_Set req ''photo'' fileID;
          req = apply_opts req opts
      in doRequest T c ''sendPhoto'' req)"

definition SendPhotoFile ::
  "('r, 'rd) Transport \<Rightarrow> Client \<Rightarrow> string \<Rightarrow> string
   \<Rightarrow> SendOption list \<Rightarrow> 'r" where
  "SendPhotoFile T c chatID filename opts =
     (let req = Map.empty;
          req = Values_Set req ''chat_id'' chatID;
          req = apply_opts req opts;
          mwf = [];
          mwf = files_Add mwf \<lparr> field = ''photo'', name = filename \<rparr>
      in doRequestWithFiles T c ''sendPhoto'' req (files mwf))"

definition SendDocument ::
  "('r, 'rd) Transport \<Rightarrow> Client \<Rightarrow> string \<Rightarrow> string
   \<Rightarrow> SendOption list \<Rightarrow> 'r" where
  "SendDocument T c chatID fileID opts =
     (let req = Map.empty;
          req = Values_Set req ''chat_id'' chatID;
          req = Values_Set req ''document'' fileID;
          req = apply_opts req opts
      in doRequest T c ''sendDocument'' req)"

definition SendDocumentFile ::
  "('r, 'rd) Transport \<Rightarrow> Client \<Rightarrow> string \<Rightarrow> string
   \<Rightarrow> SendOption list \<Rightarrow> 'r" where
  "SendDocumentFile T c chatID filename opts =
     (let req = Map.empty;
          req = Values_Set req ''chat_id'' chatID;
          req = apply_opts req opts;
          mwf = [];
          mwf = files_Add mwf \<lparr> field = ''document'', name = filename \<rparr>
      in doRequestWithFiles T c ''sendDocument'' req (files mwf))"

definition SendVideo ::
  "('r, 'rd) Transport \<Rightarrow> Client \<Rightarrow> string \<Rightarrow> string
   \<Rightarrow> SendOption list \<Rightarrow> 'r" where
  "SendVideo T c chatID fileID opts =
     (let req = Map.empty;
          req = Values_Set req ''chat_id'' chatID;
          req = Values_Set req ''video'' fileID;
          req = apply_opts req opts
      in doRequest T c ''sendVideo'' req)"

definition SendVideoFile ::
  "('r, 'rd) Transport \<Rightarrow> Client \<Rightarrow> string \<Rightarrow> string
   \<Rightarrow> SendOption list \<Rightarrow> 'r" where
  "SendVideoFile T c chatID filename opts =
     (let req = Map.empty;
          req = Values_Set req ''chat_id'' chatID;
          req = apply_opts req opts;
          mwf = [];
          mwf = files_Add mwf \<lparr> field = ''video'', name = filename \<rparr>
      in doRequestWithFiles T c ''sendVideo'' req (files mwf))"

definition SendAnimation ::
  "('r, 'rd) Transport \<Rightarrow> Client \<Rightarrow> string \<Rightarrow> string
   \<Rightarrow> SendOption list \<Rightarrow> 'r" where
  "SendAnimation T c chatID fileID opts =
     (let req = Map.empty;
          req = Values_Set req ''chat_id'' chatID;
          req = Values_Set req ''animation'' fileID;
          req = apply_opts req opts
      in if length (Values_Get req ''thumb'') > 0
         then (let thumb = Values_Get req ''thumb'';
                   req = Values_Del req ''thumb'';
                   mwf = [];
                   mwf = files_Add mwf \<lparr> field = ''thumb'', name = thumb \<rparr>
               in doRequestWithFiles T c ''sendAnimation'' req (files mwf))
         else doRequest T c ''sendAnimation'' req)"

definition SendAnimationFile ::
  "('r, 'rd) Transport \<Rightarrow> Client \<Rightarrow> string \<Rightarrow> string
   \<Rightarrow> SendOption list \<Rightarrow> 'r" where
  "SendAnimationFile T c chatID filename opts =
     (let req = Map.empty;
          req = Values_Set req ''chat_id'' chatID;
          req = apply_opts req opts;
          mwf = [];
          mwf = files_Add mwf \<lparr> field = ''animation'', name = filename \<rparr>;
          (req, mwf) = (if length (Values_Get req ''thumb'') > 0
             then (let thumb = Values_Get req ''thumb'';
                       req = Values_Del req ''thumb'';
                       mwf = files_Add mwf \<lparr> field = ''thumb'', name = thumb \<rparr>
                   in (req, mwf))
             else (req, mwf))
      in doRequestWithFiles T c ''sendAnimation'' req (files mwf))"

definition SendVoice ::
  "('r, 'rd) Transport \<Rightarrow> Client \<Rightarrow> string \<Rightarrow> string
   \<Rightarrow> SendOption list \<Rightarrow> 'r" where
  "SendVoice T c chatID fileID opts =
     (let req = Map.empty;
          req = Values_Set req ''chat_id'' chatID;
          req = Values_Set req ''voice'' fileID;
          req = apply_opts req opts
      in doRequest T c ''sendVoice'' req)"

definition SendVoiceFile ::
  "('r, 'rd) Transport \<Rightarrow> Client \<Rightarrow> string \<Rightarrow> string
   \<Rightarrow> SendOption list \<Rightarrow> 'r" where
  "SendVoiceFile T c chatID filename opts =
     (let req = Map.empty;
          req = Values_Set req ''chat_id'' chatID;
          req = apply_opts req opts;
          mwf = [];
          mwf = files_Add mwf \<lparr> field = ''voice'', name = filename \<rparr>
      in doRequestWithFiles T c ''sendVoice'' req (files mwf))"

definition SendVideoNote ::
  "('r, 'rd) Transport \<Rightarrow> Client \<Rightarrow> string \<Rightarrow> string
   \<Rightarrow> SendOption list \<Rightarrow> 'r" where
  "SendVideoNote T c chatID fileID opts =
     (let req = Map.empty;
          req = Values_Set req ''chat_id'' chatID;
          req = Values_Set req ''video_note'' fileID;
          req = apply_opts req opts
      in if length (Values_Get req ''thumb'') > 0
         then (let thumb = Values_Get req ''thumb'';
                   req = Values_Del req ''thumb'';
                   mwf = [];
                   mwf = files_Add mwf \<lparr> field = ''thumb'', name = thumb \<rparr>
               in doRequestWithFiles T c ''sendVideoNote'' req (files mwf))
         else doRequest T c ''sendVideoNote'' req)"

definition SendVideoNoteFile ::
  "('r, 'rd) Transport \<Rightarrow> Client \<Rightarrow> string \<Rightarrow> string
   \<Rightarrow> SendOption list \<Rightarrow> 'r" where
  "SendVideoNoteFile T c chatID filename opts =
     (let req = Map.empty;
          req = Values_Set req ''chat_id'' chatID;
          req = apply_opts req opts;
          mfw = [];
          mfw = files_Add mfw \<lparr> field = ''video_note'', name = filename \<rparr>;
          (req, mfw) = (if length (Values_Get req ''thumb'') > 0
             then (let thumb = Values_Get req ''thumb'';
                       req = Values_Del req ''thumb'';
                       mfw = files_Add mfw \<lparr> field = ''thumb'', name = thumb \<rparr>
                   in (req, mfw))
             else (req, mfw))
      in doRequestWithFiles T c ''sendVideoNote'' req (files mfw))"

definition SendMediaGroup ::
  "('r, 'rd) Transport \<Rightarrow> ('j \<Rightarrow> string) \<Rightarrow> Client
   \<Rightarrow> string \<Rightarrow> 'j \<Rightarrow> SendOption list \<Rightarrow> 'r" where
  "SendMediaGroup T marshal c chatID media opts =
     (let req = Map.empty;
          req = Values_Set req ''chat_id'' chatID;
          req = Values_Set req ''media'' (marshal media);
          req = apply_opts req opts
      in doRequest T c ''sendMediaGroup'' req)"

definition SendLocation ::
  "('r, 'rd) Transport \<Rightarrow> ('f \<Rightarrow> string) \<Rightarrow> Client
   \<Rightarrow> string \<Rightarrow> 'f \<Rightarrow> 'f \<Rightarrow> SendOption list
   \<Rightarrow> 'r" where
  "SendLocation T sprint c chatID latitude longitude opts =
     (let req = Map.empty;
          req = Values_Set req ''chat_id'' chatID;
          req = Values_Set req ''latitude'' (sprint latitude);
          req = Values_Set req ''longitude'' (sprint longitude);
          req = apply_opts req opts
      in doRequest T c ''sendLocation'' req)"

definition EditMessageLiveLocation ::
  "('r, 'rd) Transport \<Rightarrow> ('f \<Rightarrow> string) \<Rightarrow> Client
   \<Rightarrow> string \<Rightarrow> int \<Rightarrow> 'f \<Rightarrow> 'f
   \<Rightarrow> SendOption list \<Rightarrow> 'r" where
  "EditMessageLiveLocation T sprint c chatID messageID latitude longitude opts =
     (let req = Map.empty;
          req = Values_Set req ''chat_id'' chatID;
          req = Values_Set req ''message_id'' (fmt_Sprint_int messageID);
          req = Values_Set req ''latitude'' (sprint latitude);
          req = Values_Set req ''longitude'' (sprint longitude);
          req = apply_opts req opts
      in doRequest T c ''editMessageLiveLocation'' req)"

definition EditInlineMessageLiveLocation ::
  "('r, 'rd) Transport \<Rightarrow> ('f \<Rightarrow> string) \<Rightarrow> Client
   \<Rightarrow> string \<Rightarrow> 'f \<Rightarrow> 'f \<Rightarrow> SendOption list
   \<Rightarrow> 'r" where
  "EditInlineMessageLiveLocation T sprint c inlineMessageID latitude longitude opts =
     (let req = Map.empty;
          req = Values_Set req ''inline_message_id'' inlineMessageID;
          req = Values_Set req ''latitude'' (sprint latitude);
          req = Values_Set req ''longitude'' (sprint longitude);
          req = apply_opts req opts
      in doRequest T c ''editMessageLiveLocation'' req)"

definition StopMessageLiveLocation ::
  "('r, 'rd) Transport \<Rightarrow> Client \<Rightarrow> string \<Rightarrow> int
   \<Rightarrow> SendOption list \<Rightarrow> 'r" where
  "StopMessageLiveLocation T c chatID messageID opts =
     (let req = Map.empty;
          req = Values_Set req ''chat_id'' chatID;
          req = Values_Set req ''message_id'' (fmt_Sprint_int messageID);
          req = apply_opts req opts
      in doRequest T c ''stopMessageLiveLocation'' req)"

definition StopInlineMessageLiveLocation ::
  "('r, 'rd) Transport \<Rightarrow> Client \<Rightarrow> string
   \<Rightarrow> SendOption list \<Rightarrow> 'r" where
  "StopInlineMessageLiveLocation T c inlineMessageID opts =
     (let req = Map.empty;
          req = Values_Set req ''inline_message_id'' inlineMessageID;
          req = apply_opts req opts
      in doRequest T c ''stopMessageLiveLocation'' req)"

definition SendVenue ::
  "('r, 'rd) Transport \<Rightarrow> ('f \<Rightarrow> string) \<Rightarrow> Client
   \<Rightarrow> string \<Rightarrow> 'f \<Rightarrow> 'f \<Rightarrow> string
   \<Rightarrow> string \<Rightarrow> SendOption list \<Rightarrow> 'r" where
  "SendVenue T sprint c chatID latitude longitude title address opts =
     (let req = Map.empty;
          req = Values_Set req ''chat_id'' chatID;
          req = Values_Set req ''latitude'' (sprint latitude);
          req = Values_Set req ''longitude'' (sprint longitude);
          req = Values_Set req ''title'' title;
          req = Values_Set req ''address'' address;
          req = apply_opts req opts
      in doRequest T c ''sendVenue'' req)"

definition SendContact ::
  "('r, 'rd) Transport \<Rightarrow> Client \<Rightarrow> string \<Rightarrow> string
   \<Rightarrow> string \<Rightarrow> SendOption list \<Rightarrow> 'r" where
  "SendContact T c chatID phoneNumber firstName opts =
     (let req = Map.empty;
          req = Values_Set req ''chat_id'' chatID;
          req = Values_Set req ''phone_number'' phoneNumber;
          req = Values_Set req ''first_name'' firstName;
          req = apply_opts req opts
      in doRequest T c ''sendContact'' req)"

definition GetUserProfilePhotos ::
  "('r, 'rd) Transport \<Rightarrow> Client \<Rightarrow> int \<Rightarrow> SendOption list
   \<Rightarrow> 'r" where
  "GetUserProfilePhotos T c userID opts =
     (let req = Map.empty;
          req = Values_Set req ''user_id'' (fmt_Sprint_int userID);
          req = apply_opts req opts
      in doRequest T c ''getUserProfilePhotos'' req)"

definition KickChatMember ::
  "('r, 'rd) Transport \<Rightarrow> Client \<Rightarrow> string \<Rightarrow> int
   \<Rightarrow> SendOption list \<Rightarrow> 'r" where
  "KickChatMember T c chatID userID opts =
     (let req = Map.empty;
          req = Values_Set req ''chat_id'' chatID;
          req = Values_Set req ''user_id'' (fmt_Sprint_int userID);
          req = apply_opts req opts
      in doRequest T c ''kickChatMember'' req)"

definition RestrictChatMember ::
  "('r, 'rd) Transport \<Rightarrow> Client \<Rightarrow> string \<Rightarrow> int
   \<Rightarrow> (Restrictions option) \<Rightarrow> SendOption list \<Rightarrow> 'r option" where
  "RestrictChatMember T c chatID userID r opts =
     (let req = Map.empty;
          req = Values_Set req ''chat_id'' chatID;
          req = Values_Set req ''user_id'' (fmt_Sprint_int userID)
      in case r of
           None \<Rightarrow> None
         | Some r1 \<Rightarrow>
             (let req = Values_Set req ''can_send_messages'' (fmt_Sprint_bool (CanSendMessages r1));
                  req = Values_Set req ''can_send_media_messages'' (fmt_Sprint_bool (CanSendMediaMessages r1));
                  req = Values_Set req ''can_send_other_messages'' (fmt_Sprint_bool (CanSendOtherMessages r1));
                  req = Values_Set req ''can_add_web_page_previews'' (fmt_Sprint_bool (CanAddWebPagePreviews r1));
                  req = apply_opts req opts
              in Some (doRequest T c ''restrictChatMember'' req)))"

definition PinChatMessage ::
  "('r, 'rd) Transport \<Rightarrow> Client \<Rightarrow> string \<Rightarrow> int
   \<Rightarrow> SendOption list \<Rightarrow> 'r" where
  "PinChatMessage T c chatID messageID opts =
     (let req = Map.empty;
          req = Values_Set req ''chat_id'' chatID;
          req = Values_Set req ''message_id'' (fmt_Sprint_int messageID);
          req = apply_opts req opts
      in doRequest T c ''pinChatMessage'' req)"

definition AnswerCallbackQuery ::
  "('r, 'rd) Transport \<Rightarrow> Client \<Rightarrow> string
   \<Rightarrow> SendOption list \<Rightarrow> 'r" where
  "AnswerCallbackQuery T c callbackQueryID opts =
     (let req = Map.empty;
          req = Values_Set req ''callback_query_id'' callbackQueryID;
          req = apply_opts req opts
      in doRequest T c ''answerCallbackQuery'' req)"

definition EditMessageText ::
  "('r, 'rd) Transport \<Rightarrow> Client \<Rightarrow> string \<Rightarrow> int
   \<Rightarrow> string \<Rightarrow> SendOption list \<Rightarrow> 'r" where
  "EditMessageText T c chatID messageID text opts =
     (let req = Map.empty;
          req = Values_Set req ''chat_id'' chatID;
          req = Values_Set req ''message_id'' (fmt_Sprint_int messageID);
          req = Values_Set req ''text'' text;
          req = apply_opts req opts
      in doRequest T c ''editMessageText'' req)"

definition EditInlineMessageText ::
  "('r, 'rd) Transport \<Rightarrow> Client \<Rightarrow> string \<Rightarrow> string
   \<Rightarrow> SendOption list \<Rightarrow> 'r" where
  "EditInlineMessageText T c inlineMessageID text opts =
     (let req = Map.empty;
          req = Values_Set req ''inline_message_id'' inlineMessageID;
          req = Values_Set req ''text'' text;
          req = apply_opts req opts
      in doRequest T c ''editMessageText'' req)"

definition EditMessageCaption ::
  "('r, 'rd) Transport \<Rightarrow> Client \<Rightarrow> string \<Rightarrow> int
   \<Rightarrow> string \<Rightarrow> SendOption list \<Rightarrow> 'r" where
  "EditMessageCaption T c chatID messageID caption opts =
     (let req = Map.empty;
          req = Values_Set req ''chat_id'' chatID;
          req = Values_Set req ''message_id'' (fmt_Sprint_int messageID);
          req = Values_Set req ''caption'' caption;
          req = apply_opts req opts
      in doRequest T c ''editMessageCaption'' req)"

definition EditInlineMessageCaption ::
  "('r, 'rd) Transport \<Rightarrow> Client \<Rightarrow> string \<Rightarrow> string
   \<Rightarrow> SendOption list \<Rightarrow> 'r" where
  "EditInlineMessageCaption T c inlineMessageID caption opts =
     (let req = Map.empty;
          req = Values_Set req ''inline_message_id'' inlineMessageID;
          req = Values_Set req ''caption'' caption;
          req = apply_opts req opts
      in doRequest T c ''editMessageCaption'' req)"

definition EditMessageReplyMarkup ::
  "('r, 'rd) Transport \<Rightarrow> Client \<Rightarrow> string \<Rightarrow> int
   \<Rightarrow> SendOption list \<Rightarrow> 'r" where
  "EditMessageReplyMarkup T c chatID messageID opts =
     (let req = Map.empty;
          req = Values_Set req ''chat_id'' chatID;
          req = Values_Set req ''message_id'' (fmt_Sprint_int messageID);
          req = apply_opts req opts
      in doRequest T c ''editMessageReplyMarkup'' req)"

definition EditInlineMessageReplyMarkup ::
  "('r, 'rd) Transport \<Rightarrow> Client \<Rightarrow> string
   \<Rightarrow> SendOption list \<Rightarrow> 'r" where
  "EditInlineMessageReplyMarkup T c inlineMessageID opts =
     (let req = Map.empty;
          req = Values_Set req ''inline_message_id'' inlineMessageID;
          req = apply_opts req opts
      in doRequest T c ''editMessageReplyMarkup'' req)"

definition SendStickerFile ::
  "('r, 'rd) Transport \<Rightarrow> Client \<Rightarrow> string \<Rightarrow> string
   \<Rightarrow> SendOption list \<Rightarrow> 'r" where
  "SendStickerFile T c chatID filename opts =
     (let req = Map.empty;
          req = Values_Set req ''chat_id'' chatID;
          req = apply_opts req opts;
          mwf = [];
          mwf = files_Add mwf \<lparr> field = ''sticker'', name = filename \<rparr>
      in doRequestWithFiles T c ''sendSticker'' req (files mwf))"

definition SendStickerReader ::
  "('r, 'rd) Transport \<Rightarrow> Client \<Rightarrow> string \<Rightarrow> 'rd
   \<Rightarrow> SendOption list \<Rightarrow> 'r" where
  "SendStickerReader T c chatID r opts =
     (let req = Map.empty;
          req = Values_Set req ''chat_id'' chatID;
          req = apply_opts req opts;
          mr = newMultipartReaders;
          mr = readers_Add mr ''sticker'' r
      in doRequestWithFiles T c ''sendSticker'' req (readers mr))"

definition SendSticker ::
  "('r, 'rd) Transport \<Rightarrow> Client \<Rightarrow> string \<Rightarrow> string
   \<Rightarrow> SendOption list \<Rightarrow> 'r" where
  "SendSticker T c chatID fileID opts =
     (let req = Map.empty;
          req = Values_Set req ''chat_id'' chatID;
          req = Values_Set req ''sticker'' fileID;
          req = apply_opts req opts
      in doRequest T c ''sendSticker'' req)"

definition CreateNewStickerSetFile ::
  "('r, 'rd) Transport \<Rightarrow> Client \<Rightarrow> int \<Rightarrow> string
   \<Rightarrow> string \<Rightarrow> string \<Rightarrow> string
   \<Rightarrow> SendOption list \<Rightarrow> 'r" where
  "CreateNewStickerSetFile T c userID name' title stickerFilename emojis opts =
     (let req = Map.empty;
          req = Values_Set req ''user_id'' (fmt_Sprint_int userID);
          req = Values_Set req ''name'' name';
          req = Values_Set req ''title'' title;
          req = Values_Set req ''emojis'' emojis;
          req = apply_opts req opts;
          mwf = [];
          mwf = files_Add mwf \<lparr> field = ''png_sticker'', name = stickerFilename \<rparr>
      in doRequestWithFiles T c ''createNewStickerSet'' req (files mwf))"

definition CreateNewStickerSetReader ::
  "('r, 'rd) Transport \<Rightarrow> Client \<Rightarrow> int \<Rightarrow> string
   \<Rightarrow> string \<Rightarrow> 'rd \<Rightarrow> string \<Rightarrow> SendOption list
   \<Rightarrow> 'r" where
  "CreateNewStickerSetReader T c userID name' title r emojis opts =
     (let req = Map.empty;
          req = Values_Set req ''user_id'' (fmt_Sprint_int userID);
          req = Values_Set req ''name'' name';
          req = Values_Set req ''title'' title;
          req = Values_Set req ''emojis'' emojis;
          req = apply_opts req opts;
          mr = newMultipartReaders;
          mr = readers_Add mr ''png_sticker'' r
      in doRequestWithFiles T c ''createNewStickerSet'' req (readers mr))"

definition CreateNewStickerSet ::
  "('r, 'rd) Transport \<Rightarrow> Client \<Rightarrow> int \<Rightarrow> string
   \<Rightarrow> string \<Rightarrow> string \<Rightarrow> string
   \<Rightarrow> SendOption list \<Rightarrow> 'r" where
  "CreateNewStickerSet T c userID name' title fileID emojis opts =
     (let req = Map.empty;
          req = Values_Set req ''user_id'' (fmt_Sprint_int userID);
          req = Values_Set req ''name'' name';
          req = Values_Set req ''title'' title;
          req = Values_Set req ''png_sticker'' fileID;
          req = Values_Set req ''emojis'' emojis;
          req = apply_opts req opts
      in doRequest T c ''createNewStickerSet'' req)"

definition AddStickerToSetFile ::
  "('r, 'rd) Transport \<Rightarrow> Client \<Rightarrow> int \<Rightarrow> string
   \<Rightarrow> string \<Rightarrow> string \<Rightarrow> SendOption list \<Rightarrow> 'r" where
  "AddStickerToSetFile T c userID name' filename emojis opts =
     (let req = Map.empty;
          req = Values_Set req ''user_id'' (fmt_Sprint_int userID);
          req = Values_Set req ''name'' name';
          req = Values_Set req ''emojis'' emojis;
          req = apply_opts req opts;
          mfw = [];
          mfw = files_Add mfw \<lparr> field = ''png_sticker'', name = filename \<rparr>
      in doRequestWithFiles T c ''addStickerToSet'' req (files mfw))"

definition AddStickerToSetReader ::
  "('r, 'rd) Transport \<Rightarrow> Client \<Rightarrow> int \<Rightarrow> string
   \<Rightarrow> 'rd \<Rightarrow> string \<Rightarrow> SendOption list \<Rightarrow> 'r" where
  "AddStickerToSetReader T c userID name' r emojis opts =
     (let req = Map.empty;
          req = Values_Set req ''user_id'' (fmt_Sprint_int userID);
          req = Values_Set req ''name'' name';
          req = Values_Set req ''emojis'' emojis;
          req = apply_opts req opts;
          mr = newMultipartReaders;
          mr = readers_Add mr ''png_sticker'' r
      in doRequestWithFiles T c ''addStickerToSet'' req (readers mr))"

definition AddStickerToSet ::
  "('r, 'rd) Transport \<Rightarrow> Client \<Rightarrow> int \<Rightarrow> string
   \<Rightarrow> string \<Rightarrow> string \<Rightarrow> SendOption list \<Rightarrow> 'r" where
  "AddStickerToSet T c userID name' fileID emojis opts =
     (let req = Map.empty;
          req = Values_Set req ''user_id'' (fmt_Sprint_int userID);
          req = Values_Set req ''name'' name';
          req = Values_Set req ''png_sticker'' fileID;
          req = Values_Set req ''emojis'' emojis;
          req = apply_opts req opts
      in doRequest T c ''addStickerToSet'' req)"

definition AnswerInlineQuery ::
  "('r, 'rd) Transport \<Rightarrow> ('j \<Rightarrow> string) \<Rightarrow> Client
   \<Rightarrow> string \<Rightarrow> 'j \<Rightarrow> SendOption list \<Rightarrow> 'r" where
  "AnswerInlineQuery T marshal c inlineQueryID results opts =
     (let req = Map.empty;
          req = Values_Set req ''inline_query_id'' inlineQueryID;
          req = Values_Set req ''results'' (marshal results);
          req = apply_opts req opts
      in doRequest T c ''answerInlineQuery'' req)"

definition SendInvoice ::
  "('r, 'rd) Transport \<Rightarrow> ('j \<Rightarrow> string) \<Rightarrow> Client
   \<Rightarrow> string \<Rightarrow> string \<Rightarrow> string
   \<Rightarrow> (Invoice option) \<Rightarrow> 'j \<Rightarrow> SendOption list
   \<Rightarrow> 'r option" where
  "SendInvoice T marshal c chatID payload providerToken invoice prices opts =
     (let req = Map.empty;
          req = Values_Set req ''chat_id'' chatID
      in case invoice of
           None \<Rightarrow> None
         | Some invoice1 \<Rightarrow>
             (let req = Values_Set req ''title'' (Title invoice1);
                  req = Values_Set req ''description'' (Description invoice1);
                  req = Values_Set req ''payload'' payload;
                  req = Values_Set req ''provider_token'' providerToken;
                  req = Values_Set req ''start_parameter'' (StartParameter invoice1);
                  req = Values_Set req ''currency'' (Currency invoice1);
                  req = Values_Set req ''prices'' (marshal prices);
                  req = apply_opts req opts
              in Some (doRequest T c ''sendInvoice'' req)))"

definition AnswerShippingQuery ::
  "('r, 'rd) Transport \<Rightarrow> Client \<Rightarrow> string \<Rightarrow> bool
   \<Rightarrow> SendOption list \<Rightarrow> 'r" where
  "AnswerShippingQuery T c shippingQueryID ok opts =
     (let req = Map.empty;
          req = Values_Set req ''shipping_query_id'' shippingQueryID;
          req = Values_Set req ''ok'' (fmt_Sprint_bool ok);
          req = apply_opts req opts
      in doRequest T c ''answerShippingQuery'' req)"

definition AnswerPreCheckoutQuery ::
  "('r, 'rd) Transport \<Rightarrow> Client \<Rightarrow> string \<Rightarrow> bool
   \<Rightarrow> SendOption list \<Rightarrow> 'r" where
  "AnswerPreCheckoutQuery T c preCheckoutQueryID ok opts =
     (let req = Map.empty;
          req = Values_Set req ''pre_checkout_query_id'' preCheckoutQueryID;
          req = Values_Set req ''ok'' (fmt_Sprint_bool ok);
          req = apply_opts req opts
      in doRequest T c ''answerPreCheckoutQuery'' req)"

definition SendGame ::
  "('r, 'rd) Transport \<Rightarrow> Client \<Rightarrow> string \<Rightarrow> string
   \<Rightarrow> SendOption list \<Rightarrow> 'r" where
  "SendGame T c chatID gameShortName opts =
     (let req = Map.empty;
          req = Values_Set req ''chat_id'' chatID;
          req = Values_Set req ''game_short_name'' gameShortName;
          req = apply_opts req opts
      in doRequest T c ''sendGame'' req)"

definition SetGameScore ::
  "('r, 'rd) Transport \<Rightarrow> Client \<Rightarrow> string \<Rightarrow> int
   \<Rightarrow> int \<Rightarrow> int \<Rightarrow> SendOption list \<Rightarrow> 'r" where
  "SetGameScore T c chatID messageID userID score opts =
     (let req = Map.empty;
          req = Values_Set req ''chat_id'' chatID;
          req = Values_Set req ''message_id'' (fmt_Sprint_int messageID);
          req = Values_Set req ''user_id'' (fmt_Sprint_int userID);
          req = Values_Set req ''score'' (fmt_Sprint_int score);
          req = apply_opts req opts
      in doRequest T c ''setGameScore'' req)"

definition SetInlineGameScore ::
  "('r, 'rd) Transport \<Rightarrow> Client \<Rightarrow> string \<Rightarrow> int
   \<Rightarrow> int \<Rightarrow> SendOption list \<Rightarrow> 'r" where
  "SetInlineGameScore T c inlineMessageID userID score opts =
     (let req = Map.empty;
          req = Values_Set req ''inline_message_id'' inlineMessageID;
          req = Values_Set req ''user_id'' (fmt_Sprint_int userID);
          req = Values_Set req ''score'' (fmt_Sprint_int score);
          req = apply_opts req opts
      in doRequest T c ''setGameScore'' req)"

definition SendPoll ::
  "('r, 'rd) Transport \<Rightarrow> (string list \<Rightarrow> string) \<Rightarrow> Client
   \<Rightarrow> string \<Rightarrow> string \<Rightarrow> (string list)
   \<Rightarrow> SendOption list \<Rightarrow> 'r" where
  "SendPoll T marshal c chatID question options opts =
     (let req = Map.empty;
          req = Values_Set req ''chat_id'' chatID;
          req = Values_Set req ''question'' question;
          req = Values_Set req ''options'' (marshal options);
          req = apply_opts req opts
      in doRequest T c ''sendPoll'' req)"

definition StopPoll ::
  "('r, 'rd) Transport \<Rightarrow> Client \<Rightarrow> string \<Rightarrow> string
   \<Rightarrow> SendOption list \<Rightarrow> 'r" where
  "StopPoll T c chatID messageID opts =
     (let req = Map.empty;
          req = Values_Set req ''chat_id'' chatID;
          req = Values_Set req ''message_id'' messageID;
          req = apply_opts req opts
      in doRequest T c ''stopPoll'' req)"

text \<open>
  For stating what a builder hands on: the required parameters as the map that setting
  them in order gives.
\<close>

definition required :: "(string \<times> string) list \<Rightarrow> Values" where
  "required kvs = foldl (\<lambda>req (key, val). Values_Set req key val) Map.empty kvs"

section \<open>Downloading a file\<close>

record File =
  FileID :: string
  FileSize :: int
  FilePath :: string

text \<open>
  The two library functions \<open>DownloadFile\<close> calls before it reaches the network:
  \<open>fmt.Sprintf\<close> (format and operands) and \<open>http.NewRequest\<close> (method and URL, no body).
\<close>

record stdlib =
  fmt_Sprintf :: "string \<Rightarrow> string list \<Rightarrow> string"
  http_NewRequest :: "string \<Rightarrow> string \<Rightarrow> go_error + Request"

text \<open>One constructor for each \<open>fmt.Errorf\<close> of \<open>DownloadFile\<close>, in the order of the source.\<close>

datatype dl_error =
    FilepathEmpty
  | CreateRequestFailed go_error
  | DownloadFailed go_error
  | StatusNotOK int
  | ReadBodyFailed go_error

text \<open>
  What a call of \<open>DownloadFile\<close> does: it returns Go's pair of a reader (nil is \<open>None\<close>;
  a reader is the bytes it yields) and an error (nil is \<open>None\<close>), or it panics on the nil
  \<open>httpClient\<close>. The second component of the model's result lists the HTTP requests that
  were sent.
\<close>

datatype download = Panics | Returns "string option" "dl_error option"

definition http_StatusOK :: int where
  "http_StatusOK = 200"

definition DownloadFile :: "stdlib \<Rightarrow> Client \<Rightarrow> File \<Rightarrow> download \<times> Request list" where
  "DownloadFile L c file =
     (if length (FilePath file) = 0 then (Returns None (Some FilepathEmpty), [])
      else
        let fileURL = fmt_Sprintf L (filesTrailURL c) [baseURL c, token c, FilePath file]
        in case http_NewRequest L ''GET'' fileURL of
             Inl err \<Rightarrow> (Returns None (Some (CreateRequestFailed err)), [])
           | Inr r \<Rightarrow>
               (case httpClient c of
                  None \<Rightarrow> (Panics, [])
                | Some do \<Rightarrow>
                    (case do r of
                       Inl err \<Rightarrow> (Returns None (Some (DownloadFailed err)), [r])
                     | Inr resp \<Rightarrow>
                         if StatusCode resp \<noteq> http_StatusOK
                         then (Returns None (Some (StatusNotOK (StatusCode resp))), [r])
                         else (case Body resp of
                                 Inl err \<Rightarrow> (Returns None (Some (ReadBodyFailed err)), [r])
                               | Inr body \<Rightarrow> (Returns (Some body) None, [r])))))"

text \<open>
  For concrete runs: \<open>fmt.Sprintf\<close> on a format whose only verb is \<open>%s\<close>, given no
  more operands than verbs (a missing operand prints as Go prints it),
  \<open>http.NewRequest\<close> on a well-formed URL, and the server of the repository's test of
  \<open>DownloadFile\<close>, which serves one path and answers 404 elsewhere.
\<close>

fun Sprintf_s :: "string \<Rightarrow> string list \<Rightarrow> string" where
  "Sprintf_s [] args = []"
| "Sprintf_s [ch] args = [ch]"
| "Sprintf_s (a # b # fmt) args =
     (if a = CHR ''%'' \<and> b = CHR ''s''
      then (case args of
              [] \<Rightarrow> ''%!s(MISSING)'' @ Sprintf_s fmt []
            | x # xs \<Rightarrow> x @ Sprintf_s fmt xs)
      else a # Sprintf_s (b # fmt) args)"

definition test_stdlib :: stdlib where
  "test_stdlib =
     \<lparr> fmt_Sprintf = Sprintf_s,
       http_NewRequest = (\<lambda>m u. Inr \<lparr> Method = m, URL = u \<rparr>) \<rparr>"

definition test_server :: http_Client where
  "test_server r =
     (if URL r = ''http://127.0.0.1/file/botTOKEN/src/client_test.go''
      then Inr \<lparr> StatusCode = 200, Body = Inr ''package tbot_test'' \<rparr>
      else Inr \<lparr> StatusCode = 404, Body = Inr ''404 page not found'' \<rparr>)"

definition test_client :: Client where
  "test_client = NewClient ''TOKEN'' (Some test_server) ''http://127.0.0.1''"

section \<open>The update stream: registry, dispatcher, poller, update sources\<close>

text \<open>
  The Poller, the Webhook Receiver, the Dispatcher and the Handler Registry are described
  by the specification, and their code is not among the sources: of the update stream the
  sources hold the client's fields \<open>nextOffset\<close>, \<open>bufferSize\<close>, \<open>timeout\<close> and
  \<open>updatesParams\<close>, and \<open>setWebhook\<close> and \<open>deleteWebhook\<close>. The definitions of this
  section follow the words of the specification.
\<close>

text \<open>
  Modelled from the spec: the Update record of section 3, an \<open>UpdateID\<close> and exactly one
  payload variant; messages, edited messages and callback queries carry their text. The
  specification's \<open>UpdateID\<close> is an int64; the model does not bound it, so
  \<open>max(UpdateID)+1\<close> never wraps.
\<close>

datatype payload =
    Message string
  | EditedMessage string
  | CallbackQuery string
  | InlineQuery
  | ChosenInlineResult
  | ShippingQuery
  | PreCheckoutQuery
  | Poll
  | PollAnswer

record Update =
  UpdateID :: int
  Payload :: payload

text \<open>
  Modelled from the spec: a Handler Entry of section 3, a pattern (exact command string,
  prefix, or predicate) plus a callback; a callback either succeeds or fails with an
  error. The label only tells handlers apart in a trace.
\<close>

datatype pattern =
    Exact string
  | Prefix string
  | Predicate "Update \<Rightarrow> bool"

datatype outcome = Succeeded | Failed string

record Handler =
  label :: string
  callback :: "Update \<Rightarrow> outcome"

type_synonym Registry = "(pattern \<times> Handler) list"

text \<open>
  Modelled from the spec: registration (section 4.4) appends to the ordered table; there
  is no removal.
\<close>

definition Register_handler :: "Registry \<Rightarrow> pattern \<Rightarrow> Handler \<Rightarrow> Registry" where
  "Register_handler reg p h = reg @ [(p, h)]"

text \<open>
  Modelled from the spec: the text a command or prefix pattern is compared with, for the
  \<open>Message\<close> and \<open>EditedMessage\<close> kinds of section 4.3 (the bot-name suffix is taken to be
  stripped already).
\<close>

fun text_of :: "Update \<Rightarrow> string option" where
  "text_of u =
     (case Payload u of
        Message t \<Rightarrow> Some t
      | EditedMessage t \<Rightarrow> Some t
      | _ \<Rightarrow> None)"

text \<open>
  Modelled from the spec: when a pattern matches an update. An exact command matches the
  whole text, case-sensitively; a prefix matches the beginning of the text; a predicate
  decides by itself.
\<close>

fun matches :: "pattern \<Rightarrow> Update \<Rightarrow> bool" where
  "matches (Exact cmd) u = (text_of u = Some cmd)"
| "matches (Prefix p) u =
     (case text_of u of None \<Rightarrow> False | Some t \<Rightarrow> take (length p) t = p)"
| "matches (Predicate f) u = f u"

text \<open>
  Modelled from the spec: the specificity order of a Route Match (section 3), exact
  command before prefix before predicate.
\<close>

fun tier :: "pattern \<Rightarrow> nat" where
  "tier (Exact cmd) = 0"
| "tier (Prefix p) = 1"
| "tier (Predicate f) = 2"

text \<open>
  Modelled from the spec: within a priority tier the first matching entry wins, in
  insertion order.
\<close>

definition first_in_tier :: "nat \<Rightarrow> Registry \<Rightarrow> Update \<Rightarrow> Handler option" where
  "first_in_tier n reg u =
     map_option snd (find (\<lambda>e. tier (fst e) = n \<and> matches (fst e) u) reg)"

text \<open>
  Modelled from the spec: \<open>Match(update) -> (Handler, matched)\<close> of section 4.4, the
  first entry whose pattern matches in the priority order, or none.
\<close>

definition Match :: "Registry \<Rightarrow> Update \<Rightarrow> Handler option" where
  "Match reg u =
     (case first_in_tier 0 reg u of
        Some h \<Rightarrow> Some h
      | None \<Rightarrow>
          (case first_in_tier 1 reg u of
             Some h \<Rightarrow> Some h
           | None \<Rightarrow> first_in_tier 2 reg u))"

text \<open>
  Modelled from the spec: what can be observed of the update stream. The Poller hands an
  update to the Dispatcher, the Dispatcher invokes a handler, logs a handler's error, and
  the Poller advances its cursor.
\<close>

datatype event =
    Handoff int
  | Invoked string int
  | Logged string
  | Advanced int

text \<open>
  Modelled from the spec: the Dispatcher of section 4.3. It invokes the matched handler,
  if any; a failure is caught at this boundary and logged, and nothing of it is returned
  to the Update Source. An update without a handler is dropped silently.
\<close>

definition Dispatch :: "Registry \<Rightarrow> Update \<Rightarrow> event list" where
  "Dispatch reg u =
     (case Match reg u of
        None \<Rightarrow> []
      | Some h \<Rightarrow>
          (case callback h u of
             Succeeded \<Rightarrow> [Invoked (label h) (UpdateID u)]
           | Failed err \<Rightarrow> [Invoked (label h) (UpdateID u), Logged err]))"

text \<open>
  Modelled from the spec: the Poller's state, its offset cursor (section 3).
\<close>

record Poller =
  cursor :: int

text \<open>
  Modelled from the spec: synchronous dispatch of a list of updates (section 4.1), each
  update handed off and dispatched before the next one is.
\<close>

definition hand_off :: "Registry \<Rightarrow> Update list \<Rightarrow> event list" where
  "hand_off reg us = concat (map (\<lambda>u. Handoff (UpdateID u) # Dispatch reg u) us)"

text \<open>
  Modelled from the spec: the loop body of section 4.1 on a successful \<open>getUpdates\<close>
  with N updates. The updates are dispatched in ascending \<open>UpdateID\<close> order; only after
  all have been handed off the cursor is advanced to \<open>max(UpdateID)+1\<close>. With N = 0 there
  is no maximum and the cursor stays.
\<close>

definition process_batch :: "Registry \<Rightarrow> Poller \<Rightarrow> Update list \<Rightarrow> Poller \<times> event list" where
  "process_batch reg p batch =
     (if batch = [] then (p, [])
      else
        let ordered = sort_key UpdateID batch;
            handed = hand_off reg ordered;
            next = Max (UpdateID ` set batch) + 1
        in (p\<lparr> cursor := next \<rparr>, handed @ [Advanced next]))"

text \<open>
  Modelled from the spec: a polling session, the loop body run on the batches that the
  successive \<open>getUpdates\<close> calls return. A transport failure is retried and a stop
  leaves the loop, both without touching the cursor, so the batches determine the session.
\<close>

fun run_poller :: "Registry \<Rightarrow> Poller \<Rightarrow> Update list list \<Rightarrow> Poller \<times> event list" where
  "run_poller reg p [] = (p, [])"
| "run_poller reg p (batch # batches) =
     (let (p1, evs1) = process_batch reg p batch;
          (p2, evs2) = run_poller reg p1 batches
      in (p2, evs1 @ evs2))"



text \<open>
  Modelled from the spec: what the testable properties of section 8 read off a trace,
  the hand-offs, the cursor values and the handler invocations, each in order.
\<close>

fun handoffs :: "event list \<Rightarrow> int list" where
  "handoffs [] = []"
| "handoffs (Handoff i # evs) = i # handoffs evs"
| "handoffs (ev # evs) = handoffs evs"


fun invocations :: "event list \<Rightarrow> (string \<times> int) list" where
  "invocations [] = []"
| "invocations (Invoked l i # evs) = (l, i) # invocations evs"
| "invocations (ev # evs) = invocations evs"

text \<open>
  Modelled from the spec: a running instance with its two Update Sources. The webhook
  registration lives in the remote service and is changed through the client's
  \<open>setWebhook\<close> and \<open>deleteWebhook\<close>; the Poller is there while it is active.
\<close>

record Bot =
  client :: Client
  remote :: "string option"
  poller :: "Poller option"

datatype source_error = ConfigurationError | RemoteError go_error

text \<open>
  Modelled from the spec: \<open>Start()\<close> of section 4.1. It fails fast, without beginning
  the loop, if a webhook is registered with the remote service; else the Poller is
  created with its cursor at 0.
\<close>

definition Poller_Start :: "Bot \<Rightarrow> source_error option \<times> Bot" where
  "Poller_Start b =
     (if remote b \<noteq> None then (Some ConfigurationError, b)
      else (None, b\<lparr> poller := Some \<lparr> cursor = 0 \<rparr> \<rparr>))"

text \<open>
  Modelled from the spec: \<open>Stop()\<close> of section 4.1; the loop exits and the cursor is
  discarded.
\<close>

definition Poller_Stop :: "Bot \<Rightarrow> Bot" where
  "Poller_Stop b = b\<lparr> poller := None \<rparr>"

text \<open>
  Modelled from the spec: \<open>Register(url)\<close> of section 4.2. It fails if a Poller is
  active; else it calls the remote "set webhook" operation.
\<close>

definition Webhook_Register :: "Bot \<Rightarrow> string \<Rightarrow> source_error option \<times> Bot" where
  "Webhook_Register b webhookURL =
     (if poller b \<noteq> None then (Some ConfigurationError, b)
      else
        let (err, remote1) = setWebhook simulated_remote (client b) webhookURL (remote b)
        in (map_option RemoteError err, b\<lparr> remote := remote1 \<rparr>))"

text \<open>
  Modelled from the spec: \<open>Unregister()\<close> of section 4.2; it calls "delete webhook".
\<close>

definition Webhook_Unregister :: "Bot \<Rightarrow> source_error option \<times> Bot" where
  "Webhook_Unregister b =
     (let (err, remote1) = deleteWebhook simulated_remote (client b) (remote b)
      in (map_option RemoteError err, b\<lparr> remote := remote1 \<rparr>))"

text \<open>
  Modelled from the spec: the life of an instance, any sequence of the four operations,
  each from the state the previous one left.
\<close>

datatype source_op = Start | Stop | Register string | Unregister

fun source_step :: "Bot \<Rightarrow> source_op \<Rightarrow> Bot" where
  "source_step b Start = snd (Poller_Start b)"
| "source_step b Stop = Poller_Stop b"
| "source_step b (Register webhookURL) = snd (Webhook_Register b webhookURL)"
| "source_step b Unregister = snd (Webhook_Unregister b)"

definition run_sources :: "Bot \<Rightarrow> source_op list \<Rightarrow> Bot" where
  "run_sources b ops = foldl source_step b ops"

text \<open>
  Modelled from the spec: the state that section 5 excludes, a Poller that is active
  while a webhook is registered.
\<close>

definition both_active :: "Bot \<Rightarrow> bool" where
  "both_active b = (poller b \<noteq> None \<and> remote b \<noteq> None)"

text \<open>
  For concrete runs: the registry of the specification's routing test, a handler for
  \<open>/start\<close> and a catch-all, and one with a handler that fails.
\<close>

definition start_handler :: Handler where
  "start_handler = \<lparr> label = ''start'', callback = (\<lambda>u. Succeeded) \<rparr>"

definition catch_all_handler :: Handler where
  "catch_all_handler = \<lparr> label = ''catch-all'', callback = (\<lambda>u. Succeeded) \<rparr>"

definition failing_handler :: Handler where
  "failing_handler = \<lparr> label = ''failing'', callback = (\<lambda>u. Failed ''boom'') \<rparr>"

definition routing_registry :: Registry where
  "routing_registry =
     Register_handler (Register_handler [] (Exact ''/start'') start_handler)
       (Predicate (\<lambda>u. True)) catch_all_handler"

definition failing_registry :: Registry where
  "failing_registry =
     Register_handler (Register_handler [] (Exact ''/fail'') failing_handler)
       (Predicate (\<lambda>u. True)) catch_all_handler"

section \<open>Properties of the parameter map\<close>

lemma Values_Set_same: "Values_Set v k x k = Some [x]"
  by (simp add: Values_Set_def)

lemma Values_Get_Set: "Values_Get (Values_Set v k x) k = x"
  by (simp add: Values_Get_def Values_Set_def)

lemma Values_Get_absent: "v k = None \<Longrightarrow> Values_Get v k = []"
  by (simp add: Values_Get_def)

lemma Values_Del_absent: "k \<notin> dom (Values_Del v k)"
  by (simp add: Values_Del_def)

lemma apply_opts_snoc: "apply_opts req (os @ [opt]) = opt (apply_opts req os)"
  by (simp add: apply_opts_def)

lemma apply_opts_untouched:
  "(\<And>opt r. opt \<in> set opts \<Longrightarrow> opt r k = r k) \<Longrightarrow> apply_opts req opts k = req k"
  unfolding apply_opts_def
  by (induction opts arbitrary: req) simp_all

section \<open>Webhook registration: the requests\<close>

text \<open>
  C6. \<open>setWebhook u\<close> ends in \<open>doRequest\<close> with the remote method \<open>setWebhook\<close> and a
  parameter map whose only key is \<open>url\<close>, with the single value \<open>u\<close>; \<open>deleteWebhook\<close> ends
  in \<open>doRequest\<close> with the remote method \<open>deleteWebhook\<close> and the empty parameter map.
  This holds for every transport, so in particular the recorded call is that one.
\<close>

theorem webhook_requests:
  "setWebhook T c u = doRequest T c ''setWebhook'' [''url'' \<mapsto> [u]]
   \<and> setWebhook recording c u = DoRequest ''setWebhook'' [''url'' \<mapsto> [u]]
   \<and> dom (call_params (setWebhook recording c u)) = {''url''}
   \<and> call_params (setWebhook recording c u) ''url'' = Some [u]
   \<and> deleteWebhook T c = doRequest T c ''deleteWebhook'' Map.empty
   \<and> deleteWebhook recording c = DoRequest ''deleteWebhook'' Map.empty
   \<and> dom (call_params (deleteWebhook recording c)) = {}"
  by (simp add: setWebhook_def deleteWebhook_def recording_def Values_Set_def)



section \<open>Thumbnails of animations and video notes\<close>

text \<open>
  C8, as stated, fails when the option sets \<open>thumb\<close> to the empty string: the guard
  \<open>len(req.Get("thumb")) > 0\<close> sends the request through \<open>doRequest\<close>, with the key
  \<open>thumb\<close> still in the parameter map and no attachment.
\<close>

theorem thumb_empty_counterexample:
  "''thumb'' \<in> dom (call_params (SendAnimation (recording :: (unit call, unit) Transport)
                                  test_client ''123'' ''aaa'' [OptThumb '''']))
   \<and> call_files (SendAnimation (recording :: (unit call, unit) Transport)
                   test_client ''123'' ''aaa'' [OptThumb '''']) = []"
  by (simp add: SendAnimation_def recording_def apply_opts_def OptThumb_def
      Values_Set_def Values_Get_def)

text \<open>
  C8, amended. Let \<open>req\<close> be the parameter map after the options have been applied to
  the required parameters. If the first value of \<open>thumb\<close> in \<open>req\<close> is not empty (as it is
  when the last option is \<open>OptThumb f\<close> with \<open>f\<close> not empty), \<open>SendAnimation\<close> and
  \<open>SendVideoNote\<close> issue the request with \<open>thumb\<close> removed from the map and one file
  attached, under the field \<open>thumb\<close>, named by that value. Otherwise (as when no option
  touches \<open>thumb\<close>) they issue \<open>req\<close> as it is, without attachment.
\<close>

theorem thumb_attachment:
  "(let req = apply_opts [''chat_id'' \<mapsto> [chatID], ''animation'' \<mapsto> [fileID]] opts;
        sent = SendAnimation recording c chatID fileID opts
    in (Values_Get req ''thumb'' \<noteq> [] \<longrightarrow>
          sent = DoRequestWithFiles ''sendAnimation'' (Values_Del req ''thumb'')
                   (files [\<lparr> field = ''thumb'', name = Values_Get req ''thumb'' \<rparr>])
          \<and> ''thumb'' \<notin> dom (call_params sent))
     \<and> (Values_Get req ''thumb'' = [] \<longrightarrow>
          sent = DoRequest ''sendAnimation'' req \<and> call_files sent = []))
   \<and> (let req = apply_opts [''chat_id'' \<mapsto> [chatID], ''video_note'' \<mapsto> [fileID]] opts;
        sent = SendVideoNote recording c chatID fileID opts
    in (Values_Get req ''thumb'' \<noteq> [] \<longrightarrow>
          sent = DoRequestWithFiles ''sendVideoNote'' (Values_Del req ''thumb'')
                   (files [\<lparr> field = ''thumb'', name = Values_Get req ''thumb'' \<rparr>])
          \<and> ''thumb'' \<notin> dom (call_params sent))
     \<and> (Values_Get req ''thumb'' = [] \<longrightarrow>
          sent = DoRequest ''sendVideoNote'' req \<and> call_files sent = []))
   \<and> (f \<noteq> [] \<longrightarrow>
         call_files (SendAnimation recording c chatID fileID (os @ [OptThumb f]))
           = [\<lparr> field = ''thumb'', name = f \<rparr>]
         \<and> ''thumb'' \<notin> dom (call_params (SendAnimation recording c chatID fileID (os @ [OptThumb f])))
         \<and> call_files (SendVideoNote recording c chatID fileID (os @ [OptThumb f]))
           = [\<lparr> field = ''thumb'', name = f \<rparr>]
         \<and> ''thumb'' \<notin> dom (call_params (SendVideoNote recording c chatID fileID (os @ [OptThumb f]))))
   \<and> ((\<forall>opt \<in> set opts. \<forall>r. opt r ''thumb'' = r ''thumb'') \<longrightarrow>
         call_files (SendAnimation recording c chatID fileID opts) = []
         \<and> call_files (SendVideoNote recording c chatID fileID opts) = [])"
proof -
  have untouched: "apply_opts [''chat_id'' \<mapsto> [chatID], k \<mapsto> [fileID]] opts ''thumb'' = None"
    if "\<forall>opt \<in> set opts. \<forall>r. opt r ''thumb'' = r ''thumb''" and "k \<noteq> ''thumb''" for k
  proof -
    have "apply_opts [''chat_id'' \<mapsto> [chatID], k \<mapsto> [fileID]] opts ''thumb''
          = [''chat_id'' \<mapsto> [chatID], k \<mapsto> [fileID]] ''thumb''"
      using that(1) by (intro apply_opts_untouched) blast
    then show ?thesis using that(2) by simp
  qed
  have last: "Values_Get (apply_opts b (os @ [OptThumb f])) ''thumb'' = f" for b
    by (simp add: apply_opts_snoc OptThumb_def Values_Get_Set)
  have P1: "let req = apply_opts [''chat_id'' \<mapsto> [chatID], ''animation'' \<mapsto> [fileID]] opts;
        sent = SendAnimation recording c chatID fileID opts
    in (Values_Get req ''thumb'' \<noteq> [] \<longrightarrow>
          sent = DoRequestWithFiles ''sendAnimation'' (Values_Del req ''thumb'')
                   (files [\<lparr> field = ''thumb'', name = Values_Get req ''thumb'' \<rparr>])
          \<and> ''thumb'' \<notin> dom (call_params sent))
     \<and> (Values_Get req ''thumb'' = [] \<longrightarrow>
          sent = DoRequest ''sendAnimation'' req \<and> call_files sent = [])"
    by (simp add: SendAnimation_def recording_def Let_def files_Add_def
        Values_Set_def Values_Del_def)
  have P2: "let req = apply_opts [''chat_id'' \<mapsto> [chatID], ''video_note'' \<mapsto> [fileID]] opts;
        sent = SendVideoNote recording c chatID fileID opts
    in (Values_Get req ''thumb'' \<noteq> [] \<longrightarrow>
          sent = DoRequestWithFiles ''sendVideoNote'' (Values_Del req ''thumb'')
                   (files [\<lparr> field = ''thumb'', name = Values_Get req ''thumb'' \<rparr>])
          \<and> ''thumb'' \<notin> dom (call_params sent))
     \<and> (Values_Get req ''thumb'' = [] \<longrightarrow>
          sent = DoRequest ''sendVideoNote'' req \<and> call_files sent = [])"
    by (simp add: SendVideoNote_def recording_def Let_def files_Add_def
        Values_Set_def Values_Del_def)
  have P3: "f \<noteq> [] \<longrightarrow>
         call_files (SendAnimation recording c chatID fileID (os @ [OptThumb f]))
           = [\<lparr> field = ''thumb'', name = f \<rparr>]
         \<and> ''thumb'' \<notin> dom (call_params (SendAnimation recording c chatID fileID (os @ [OptThumb f])))
         \<and> call_files (SendVideoNote recording c chatID fileID (os @ [OptThumb f]))
           = [\<lparr> field = ''thumb'', name = f \<rparr>]
         \<and> ''thumb'' \<notin> dom (call_params (SendVideoNote recording c chatID fileID (os @ [OptThumb f])))"
    by (simp add: SendAnimation_def SendVideoNote_def recording_def Let_def files_Add_def
        last Values_Del_def)
  have P4: "call_files (SendAnimation recording c chatID fileID opts) = []
         \<and> call_files (SendVideoNote recording c chatID fileID opts) = []"
    if h: "\<forall>opt \<in> set opts. \<forall>r. opt r ''thumb'' = r ''thumb''"
  proof -
    have "Values_Get (apply_opts [''chat_id'' \<mapsto> [chatID], k \<mapsto> [fileID]] opts) ''thumb'' = []"
      if "k \<noteq> ''thumb''" for k
      using untouched [OF h that] by (rule Values_Get_absent)
    then show ?thesis
      by (simp add: SendAnimation_def SendVideoNote_def recording_def Let_def Values_Set_def)
  qed
  from P1 P2 P3 P4 show ?thesis
    by blast
qed

theorem thumb_attachment_witness:
  "SendAnimation (recording :: (unit call, unit) Transport) test_client ''123'' ''aaa''
       [OptThumb ''t.png'']
     = DoRequestWithFiles ''sendAnimation'' [''chat_id'' \<mapsto> [''123''], ''animation'' \<mapsto> [''aaa'']]
         (files [\<lparr> field = ''thumb'', name = ''t.png'' \<rparr>])
   \<and> SendVideoNote (recording :: (unit call, unit) Transport) test_client ''123'' ''aaa''
       [OptThumb ''t.png'']
     = DoRequestWithFiles ''sendVideoNote'' [''chat_id'' \<mapsto> [''123''], ''video_note'' \<mapsto> [''aaa'']]
         (files [\<lparr> field = ''thumb'', name = ''t.png'' \<rparr>])
   \<and> SendAnimation (recording :: (unit call, unit) Transport) test_client ''123'' ''aaa'' []
     = DoRequest ''sendAnimation'' [''chat_id'' \<mapsto> [''123''], ''animation'' \<mapsto> [''aaa'']]
   \<and> call_files (SendVideoNote (recording :: (unit call, unit) Transport)
                   test_client ''123'' ''aaa'' []) = []"
proof -
  have get: "Values_Get (apply_opts b [OptThumb ''t.png'']) ''thumb'' = ''t.png''" for b
    by (simp add: apply_opts_def OptThumb_def Values_Get_Set)
  have del: "Values_Del (apply_opts [''chat_id'' \<mapsto> [''123''], k \<mapsto> [''aaa'']] [OptThumb ''t.png''])
               ''thumb'' = [''chat_id'' \<mapsto> [''123''], k \<mapsto> [''aaa'']]"
    if "k \<noteq> ''thumb''" for k
    using that by (auto simp: apply_opts_def OptThumb_def Values_Set_def Values_Del_def)
  have none: "Values_Get (apply_opts [''chat_id'' \<mapsto> [''123''], k \<mapsto> [''aaa'']] []) ''thumb'' = []"
    if "k \<noteq> ''thumb''" for k
    using that by (simp add: apply_opts_def Values_Get_def)
  have with_thumb:
    "SendAnimation (recording :: (unit call, unit) Transport) test_client ''123'' ''aaa''
         [OptThumb ''t.png'']
       = DoRequestWithFiles ''sendAnimation'' [''chat_id'' \<mapsto> [''123''], ''animation'' \<mapsto> [''aaa'']]
           (files [\<lparr> field = ''thumb'', name = ''t.png'' \<rparr>])
     \<and> SendVideoNote (recording :: (unit call, unit) Transport) test_client ''123'' ''aaa''
         [OptThumb ''t.png'']
       = DoRequestWithFiles ''sendVideoNote'' [''chat_id'' \<mapsto> [''123''], ''video_note'' \<mapsto> [''aaa'']]
           (files [\<lparr> field = ''thumb'', name = ''t.png'' \<rparr>])"
    using thumb_attachment [where chatID = "''123''" and fileID = "''aaa''"
        and opts = "[OptThumb ''t.png'']" and c = test_client
        and f = "''t.png''" and os = "[]"]
    by (simp add: Let_def get del) blast
  have without:
    "SendAnimation (recording :: (unit call, unit) Transport) test_client ''123'' ''aaa'' []
       = DoRequest ''sendAnimation'' [''chat_id'' \<mapsto> [''123''], ''animation'' \<mapsto> [''aaa'']]
     \<and> call_files (SendVideoNote (recording :: (unit call, unit) Transport)
                     test_client ''123'' ''aaa'' []) = []"
    using thumb_attachment [where chatID = "''123''" and fileID = "''aaa''"
        and opts = "[]" and c = test_client and f = "''t.png''" and os = "[]"]
    by (simp add: Let_def none) (auto simp: apply_opts_def)
  from with_thumb without show ?thesis
    by blast
qed

section \<open>Downloading a file: the error returns\<close>

text \<open>
  C9. With an empty \<open>FilePath\<close>, \<open>DownloadFile\<close> returns a nil reader and the error
  "filepath is empty", and no HTTP request has been sent. Whenever the HTTP client answers
  the request with a response whose status code is not 200, \<open>DownloadFile\<close> returns a nil
  reader and the error that reports the status code.
\<close>

theorem DownloadFile_errors:
  "(FilePath file = [] \<longrightarrow>
      DownloadFile L c file = (Returns None (Some FilepathEmpty), []))
   \<and> (FilePath file \<noteq> []
        \<and> http_NewRequest L ''GET''
            (fmt_Sprintf L (filesTrailURL c) [baseURL c, token c, FilePath file]) = Inr r
        \<and> httpClient c = Some do
        \<and> do r = Inr resp
        \<and> StatusCode resp \<noteq> 200 \<longrightarrow>
      DownloadFile L c file = (Returns None (Some (StatusNotOK (StatusCode resp))), [r]))"
  by (simp add: DownloadFile_def http_StatusOK_def)

theorem DownloadFile_errors_witness:
  "DownloadFile test_stdlib test_client \<lparr> FileID = ''1'', FileSize = 0, FilePath = '''' \<rparr>
     = (Returns None (Some FilepathEmpty), [])
   \<and> DownloadFile test_stdlib test_client
        \<lparr> FileID = ''2'', FileSize = 0, FilePath = ''src/non_existed_file.go'' \<rparr>
     = (Returns None (Some (StatusNotOK 404)),
        [\<lparr> Method = ''GET'',
           URL = ''http://127.0.0.1/file/botTOKEN/src/non_existed_file.go'' \<rparr>])"
proof -
  have url: "fmt_Sprintf test_stdlib (filesTrailURL test_client)
               [baseURL test_client, token test_client, ''src/non_existed_file.go'']
             = ''http://127.0.0.1/file/botTOKEN/src/non_existed_file.go''"
    by (simp add: test_stdlib_def test_client_def NewClient_def)
  have empty: "DownloadFile test_stdlib test_client
                 \<lparr> FileID = ''1'', FileSize = 0, FilePath = '''' \<rparr>
               = (Returns None (Some FilepathEmpty), [])"
    using DownloadFile_errors [where ?file = "\<lparr> FileID = ''1'', FileSize = 0, FilePath = '''' \<rparr>"
        and L = test_stdlib and c = test_client]
    by simp
  have status: "DownloadFile test_stdlib test_client
                  \<lparr> FileID = ''2'', FileSize = 0, FilePath = ''src/non_existed_file.go'' \<rparr>
                = (Returns None (Some (StatusNotOK 404)),
                   [\<lparr> Method = ''GET'',
                      URL = ''http://127.0.0.1/file/botTOKEN/src/non_existed_file.go'' \<rparr>])"
    using DownloadFile_errors
      [where ?file = "\<lparr> FileID = ''2'', FileSize = 0, FilePath = ''src/non_existed_file.go'' \<rparr>"
        and L = test_stdlib and c = test_client
        and r = "\<lparr> Method = ''GET'',
                   URL = ''http://127.0.0.1/file/botTOKEN/src/non_existed_file.go'' \<rparr>"
        and do = test_server
        and resp = "\<lparr> StatusCode = 404, Body = Inr ''404 page not found'' \<rparr>"]
    by (simp add: url) (simp add: test_stdlib_def test_client_def NewClient_def test_server_def)
  from empty status show ?thesis
    by blast
qed

section \<open>Routing: the match of an update against the registry\<close>


lemma tier_cases: "tier p = 0 \<or> tier p = 1 \<or> tier p = 2"
  by (cases p) simp_all

lemma first_in_tier_None:
  "first_in_tier n reg u = None \<longleftrightarrow> (\<forall>e \<in> set reg. \<not> (tier (fst e) = n \<and> matches (fst e) u))"
  by (auto simp: first_in_tier_def find_None_iff)

lemma first_in_tier_Some:
  "first_in_tier n reg u = Some h \<longleftrightarrow>
     (\<exists>i < length reg. tier (fst (reg ! i)) = n \<and> matches (fst (reg ! i)) u \<and> snd (reg ! i) = h
        \<and> (\<forall>j < i. \<not> (tier (fst (reg ! j)) = n \<and> matches (fst (reg ! j)) u)))"
proof -
  have "first_in_tier n reg u = Some h \<longleftrightarrow>
          (\<exists>e. find (\<lambda>e. tier (fst e) = n \<and> matches (fst e) u) reg = Some e \<and> snd e = h)"
    by (auto simp: first_in_tier_def)
  also have "\<dots> \<longleftrightarrow>
     (\<exists>i < length reg. tier (fst (reg ! i)) = n \<and> matches (fst (reg ! i)) u \<and> snd (reg ! i) = h
        \<and> (\<forall>j < i. \<not> (tier (fst (reg ! j)) = n \<and> matches (fst (reg ! j)) u)))"
    unfolding find_Some_iff by blast
  finally show ?thesis .
qed

lemma Match_None: "Match reg u = None \<longleftrightarrow> (\<forall>e \<in> set reg. \<not> matches (fst e) u)"
proof
  assume "Match reg u = None"
  then have n: "first_in_tier 0 reg u = None" "first_in_tier 1 reg u = None"
    "first_in_tier 2 reg u = None"
    by (auto simp: Match_def split: option.splits)
  show "\<forall>e \<in> set reg. \<not> matches (fst e) u"
  proof
    fix e assume "e \<in> set reg"
    with n tier_cases [of "fst e"] show "\<not> matches (fst e) u"
      by (auto simp: first_in_tier_None)
  qed
next
  assume "\<forall>e \<in> set reg. \<not> matches (fst e) u"
  then have "first_in_tier n reg u = None" for n
    by (simp add: first_in_tier_None)
  then show "Match reg u = None"
    by (simp add: Match_def)
qed

lemma Match_Some:
  assumes "Match reg u = Some h"
  shows "\<exists>i < length reg. snd (reg ! i) = h \<and> matches (fst (reg ! i)) u
           \<and> (\<forall>j < length reg. matches (fst (reg ! j)) u \<longrightarrow>
                 tier (fst (reg ! i)) < tier (fst (reg ! j))
                 \<or> (tier (fst (reg ! i)) = tier (fst (reg ! j)) \<and> i \<le> j))"
proof -
  consider (exact) "first_in_tier 0 reg u = Some h"
    | (prefix) "first_in_tier 0 reg u = None" "first_in_tier 1 reg u = Some h"
    | (pred) "first_in_tier 0 reg u = None" "first_in_tier 1 reg u = None"
        "first_in_tier 2 reg u = Some h"
    using assms by (auto simp: Match_def split: option.splits)
  then show ?thesis
  proof cases
    case exact
    then obtain i where i: "i < length reg" "tier (fst (reg ! i)) = 0" "matches (fst (reg ! i)) u"
      "snd (reg ! i) = h" "\<forall>j < i. \<not> (tier (fst (reg ! j)) = 0 \<and> matches (fst (reg ! j)) u)"
      by (auto simp: first_in_tier_Some)
    have "tier (fst (reg ! i)) < tier (fst (reg ! j))
          \<or> (tier (fst (reg ! i)) = tier (fst (reg ! j)) \<and> i \<le> j)"
      if "j < length reg" "matches (fst (reg ! j)) u" for j
      using i that by (metis not_le_imp_less zero_less_iff_neq_zero)
    with i show ?thesis by blast
  next
    case prefix
    then obtain i where i: "i < length reg" "tier (fst (reg ! i)) = 1" "matches (fst (reg ! i)) u"
      "snd (reg ! i) = h" "\<forall>j < i. \<not> (tier (fst (reg ! j)) = 1 \<and> matches (fst (reg ! j)) u)"
      by (auto simp: first_in_tier_Some)
    have "tier (fst (reg ! i)) < tier (fst (reg ! j))
          \<or> (tier (fst (reg ! i)) = tier (fst (reg ! j)) \<and> i \<le> j)"
      if j: "j < length reg" "matches (fst (reg ! j)) u" for j
    proof -
      have "tier (fst (reg ! j)) \<noteq> 0"
        using prefix(1) j by (auto simp: first_in_tier_None)
      with tier_cases [of "fst (reg ! j)"] i j show ?thesis
        by (metis not_le_imp_less one_less_numeral_iff semiring_norm(76))
    qed
    with i show ?thesis by blast
  next
    case pred
    then obtain i where i: "i < length reg" "tier (fst (reg ! i)) = 2" "matches (fst (reg ! i)) u"
      "snd (reg ! i) = h" "\<forall>j < i. \<not> (tier (fst (reg ! j)) = 2 \<and> matches (fst (reg ! j)) u)"
      by (auto simp: first_in_tier_Some)
    have "tier (fst (reg ! i)) < tier (fst (reg ! j))
          \<or> (tier (fst (reg ! i)) = tier (fst (reg ! j)) \<and> i \<le> j)"
      if j: "j < length reg" "matches (fst (reg ! j)) u" for j
    proof -
      have "tier (fst (reg ! j)) \<noteq> 0" "tier (fst (reg ! j)) \<noteq> 1"
        using pred(1,2) j by (auto simp: first_in_tier_None)
      with tier_cases [of "fst (reg ! j)"] i j show ?thesis
        by (metis not_le_imp_less)
    qed
    with i show ?thesis by blast
  qed
qed

lemma Dispatch_at_most_one: "length (invocations (Dispatch reg u)) \<le> 1"
  by (simp add: Dispatch_def split: option.splits outcome.splits)

text \<open>
  C5. \<open>Match\<close> returns no handler exactly when no entry matches, and otherwise the
  handler of one entry: a matching entry such that every other matching entry is of a
  less specific tier (exact command before prefix before predicate) or of the same tier
  and registered later. The Dispatcher invokes at most one handler per update. With a
  handler for \<open>/start\<close> and a catch-all predicate, registered in either order, the message
  \<open>/start\<close> goes to the \<open>/start\<close> handler only and the message \<open>hello\<close> to the catch-all
  only.
\<close>

theorem Match_specificity:
  "(Match reg u = None \<longleftrightarrow> (\<forall>e \<in> set reg. \<not> matches (fst e) u))
   \<and> (Match reg u = Some h \<longrightarrow>
        (\<exists>i < length reg. snd (reg ! i) = h \<and> matches (fst (reg ! i)) u
           \<and> (\<forall>j < length reg. matches (fst (reg ! j)) u \<longrightarrow>
                 tier (fst (reg ! i)) < tier (fst (reg ! j))
                 \<or> (tier (fst (reg ! i)) = tier (fst (reg ! j)) \<and> i \<le> j))))
   \<and> length (invocations (Dispatch reg u)) \<le> 1
   \<and> Match [(Exact ''/start'', h1), (Predicate (\<lambda>u. True), h2)]
        \<lparr> UpdateID = n, Payload = Message ''/start'' \<rparr> = Some h1
   \<and> Match [(Predicate (\<lambda>u. True), h2), (Exact ''/start'', h1)]
        \<lparr> UpdateID = n, Payload = Message ''/start'' \<rparr> = Some h1
   \<and> Match [(Exact ''/start'', h1), (Predicate (\<lambda>u. True), h2)]
        \<lparr> UpdateID = n, Payload = Message ''hello'' \<rparr> = Some h2
   \<and> Match [(Predicate (\<lambda>u. True), h2), (Exact ''/start'', h1)]
        \<lparr> UpdateID = n, Payload = Message ''hello'' \<rparr> = Some h2
   \<and> Dispatch routing_registry \<lparr> UpdateID = n, Payload = Message ''/start'' \<rparr>
       = [Invoked ''start'' n]
   \<and> Dispatch routing_registry \<lparr> UpdateID = n, Payload = Message ''hello'' \<rparr>
       = [Invoked ''catch-all'' n]"
proof -
  have examples:
    "Match [(Exact ''/start'', h1), (Predicate (\<lambda>u. True), h2)]
        \<lparr> UpdateID = n, Payload = Message ''/start'' \<rparr> = Some h1"
    "Match [(Predicate (\<lambda>u. True), h2), (Exact ''/start'', h1)]
        \<lparr> UpdateID = n, Payload = Message ''/start'' \<rparr> = Some h1"
    "Match [(Exact ''/start'', h1), (Predicate (\<lambda>u. True), h2)]
        \<lparr> UpdateID = n, Payload = Message ''hello'' \<rparr> = Some h2"
    "Match [(Predicate (\<lambda>u. True), h2), (Exact ''/start'', h1)]
        \<lparr> UpdateID = n, Payload = Message ''hello'' \<rparr> = Some h2"
    by (simp_all add: Match_def first_in_tier_def)
  have dispatched:
    "Dispatch routing_registry \<lparr> UpdateID = n, Payload = Message ''/start'' \<rparr>
       = [Invoked ''start'' n]"
    "Dispatch routing_registry \<lparr> UpdateID = n, Payload = Message ''hello'' \<rparr>
       = [Invoked ''catch-all'' n]"
    by (simp_all add: Dispatch_def routing_registry_def Register_handler_def Match_def
        first_in_tier_def start_handler_def catch_all_handler_def)
  from Match_None [of reg u] Match_Some [of reg u h] Dispatch_at_most_one [of reg u]
    examples dispatched
  show ?thesis by blast
qed

theorem Match_specificity_witness:
  "Match routing_registry \<lparr> UpdateID = 1, Payload = Message ''/start'' \<rparr> = Some start_handler
   \<and> (\<exists>i < length routing_registry.
         snd (routing_registry ! i) = start_handler
         \<and> matches (fst (routing_registry ! i)) \<lparr> UpdateID = 1, Payload = Message ''/start'' \<rparr>
         \<and> (\<forall>j < length routing_registry.
               matches (fst (routing_registry ! j)) \<lparr> UpdateID = 1, Payload = Message ''/start'' \<rparr> \<longrightarrow>
               tier (fst (routing_registry ! i)) < tier (fst (routing_registry ! j))
               \<or> (tier (fst (routing_registry ! i)) = tier (fst (routing_registry ! j)) \<and> i \<le> j)))
   \<and> Match [] \<lparr> UpdateID = 1, Payload = Message ''/start'' \<rparr> = None"
proof -
  have m: "Match routing_registry \<lparr> UpdateID = 1, Payload = Message ''/start'' \<rparr>
           = Some start_handler"
    by (simp add: routing_registry_def Register_handler_def Match_def first_in_tier_def)
  have e: "\<forall>e \<in> set ([] :: Registry). \<not> matches (fst e) \<lparr> UpdateID = 1, Payload = Message ''/start'' \<rparr>"
    by simp
  from m e
    Match_specificity [where reg = routing_registry and h = start_handler
      and u = "\<lparr> UpdateID = 1, Payload = Message ''/start'' \<rparr>"]
    Match_specificity [where reg = "[]"
      and u = "\<lparr> UpdateID = 1, Payload = Message ''/start'' \<rparr>"]
  show ?thesis by blast
qed

section \<open>The Poller: order of dispatch and the offset cursor\<close>

lemma handoffs_append: "handoffs (xs @ ys) = handoffs xs @ handoffs ys"
  by (induction xs rule: handoffs.induct) simp_all


lemma handoffs_Dispatch: "handoffs (Dispatch reg u) = []"
  by (simp add: Dispatch_def split: option.splits outcome.splits)


lemma handoffs_hand_off: "handoffs (hand_off reg us) = map UpdateID us"
  by (induction us) (simp_all add: hand_off_def handoffs_append handoffs_Dispatch)


lemma handoffs_process_batch:
  "handoffs (snd (process_batch reg p batch)) = map UpdateID (sort_key UpdateID batch)"
  by (simp add: process_batch_def Let_def handoffs_append handoffs_hand_off)



text \<open>
  C2. For every batch, of any length, the updates are handed to the Dispatcher in
  ascending \<open>UpdateID\<close> order, each update of the batch once; the dispatch of an update
  (the invocation of its handler) follows its hand-off and precedes the next hand-off,
  and the cursor moves after the last one.
\<close>

theorem batch_dispatch_order:
  "handoffs (snd (process_batch reg p batch)) = map UpdateID (sort_key UpdateID batch)
   \<and> sorted (handoffs (snd (process_batch reg p batch)))
   \<and> mset (handoffs (snd (process_batch reg p batch))) = mset (map UpdateID batch)
   \<and> snd (process_batch reg p batch)
       = (if batch = [] then []
          else concat (map (\<lambda>u. Handoff (UpdateID u) # Dispatch reg u) (sort_key UpdateID batch))
               @ [Advanced (Max (UpdateID ` set batch) + 1)])"
proof -
  have "mset (map UpdateID (sort_key UpdateID batch)) = mset (map UpdateID batch)"
    by (metis mset_map mset_sort)
  then show ?thesis
    by (simp add: handoffs_process_batch) (simp add: process_batch_def Let_def hand_off_def)
qed






section \<open>A failing handler does not stop the stream\<close>

text \<open>
  C4. Let \<open>u1\<close> and \<open>u2\<close> be dispatched in sequence, \<open>u1\<close> first, the handler matched
  by \<open>u1\<close> failing. Whether they come in one batch or in two, the failure is logged by
  the Dispatcher and goes no further: the handler matched by \<open>u2\<close> is invoked after it
  (its own failure, if any, is logged as well), and the cursor ends beyond both updates.
\<close>

theorem failing_handler_does_not_stop:
  assumes "UpdateID u1 < UpdateID u2"
      and "Match reg u1 = Some h1" and "callback h1 u1 = Failed err"
      and "Match reg u2 = Some h2"
  shows "snd (process_batch reg p [u1, u2])
           = [Handoff (UpdateID u1), Invoked (label h1) (UpdateID u1), Logged err,
              Handoff (UpdateID u2), Invoked (label h2) (UpdateID u2)]
             @ (case callback h2 u2 of Succeeded \<Rightarrow> [] | Failed err2 \<Rightarrow> [Logged err2])
             @ [Advanced (UpdateID u2 + 1)]
         \<and> cursor (fst (process_batch reg p [u1, u2])) = UpdateID u2 + 1
         \<and> UpdateID u1 < cursor (fst (process_batch reg p [u1, u2]))
         \<and> UpdateID u2 < cursor (fst (process_batch reg p [u1, u2]))
         \<and> snd (run_poller reg p [[u1], [u2]])
           = [Handoff (UpdateID u1), Invoked (label h1) (UpdateID u1), Logged err,
              Advanced (UpdateID u1 + 1),
              Handoff (UpdateID u2), Invoked (label h2) (UpdateID u2)]
             @ (case callback h2 u2 of Succeeded \<Rightarrow> [] | Failed err2 \<Rightarrow> [Logged err2])
             @ [Advanced (UpdateID u2 + 1)]
         \<and> cursor (fst (run_poller reg p [[u1], [u2]])) = UpdateID u2 + 1"
proof -
  from assms(1) have s: "sort_key UpdateID [u1, u2] = [u1, u2]"
    by simp
  from assms(1) have m: "Max (UpdateID ` set [u1, u2]) = UpdateID u2"
    by (simp add: max_def)
  have d1: "Dispatch reg u1 = [Invoked (label h1) (UpdateID u1), Logged err]"
    using assms(2,3) by (simp add: Dispatch_def)
  have d2: "Dispatch reg u2
        = Invoked (label h2) (UpdateID u2)
          # (case callback h2 u2 of Succeeded \<Rightarrow> [] | Failed err2 \<Rightarrow> [Logged err2])"
    using assms(4) by (simp add: Dispatch_def split: outcome.splits)
  have b: "process_batch reg p [u1, u2]
        = (p\<lparr> cursor := UpdateID u2 + 1 \<rparr>,
           [Handoff (UpdateID u1), Invoked (label h1) (UpdateID u1), Logged err,
            Handoff (UpdateID u2), Invoked (label h2) (UpdateID u2)]
           @ (case callback h2 u2 of Succeeded \<Rightarrow> [] | Failed err2 \<Rightarrow> [Logged err2])
           @ [Advanced (UpdateID u2 + 1)])"
    unfolding process_batch_def Let_def s m by (simp add: hand_off_def d1 d2)
  have r: "run_poller reg p [[u1], [u2]]
        = (p\<lparr> cursor := UpdateID u2 + 1 \<rparr>,
           [Handoff (UpdateID u1), Invoked (label h1) (UpdateID u1), Logged err,
            Advanced (UpdateID u1 + 1),
            Handoff (UpdateID u2), Invoked (label h2) (UpdateID u2)]
           @ (case callback h2 u2 of Succeeded \<Rightarrow> [] | Failed err2 \<Rightarrow> [Logged err2])
           @ [Advanced (UpdateID u2 + 1)])"
    by (simp add: process_batch_def Let_def hand_off_def d1 d2)
  from b r assms(1) show ?thesis by simp
qed

theorem failing_handler_does_not_stop_witness:
  "snd (process_batch failing_registry \<lparr> cursor = 0 \<rparr>
          [\<lparr> UpdateID = 1, Payload = Message ''/fail'' \<rparr>,
           \<lparr> UpdateID = 2, Payload = Message ''hello'' \<rparr>])
     = [Handoff 1, Invoked ''failing'' 1, Logged ''boom'',
        Handoff 2, Invoked ''catch-all'' 2, Advanced 3]
   \<and> cursor (fst (process_batch failing_registry \<lparr> cursor = 0 \<rparr>
          [\<lparr> UpdateID = 1, Payload = Message ''/fail'' \<rparr>,
           \<lparr> UpdateID = 2, Payload = Message ''hello'' \<rparr>])) = 3"
proof -
  have m1: "Match failing_registry \<lparr> UpdateID = 1, Payload = Message ''/fail'' \<rparr>
            = Some failing_handler"
    by (simp add: failing_registry_def Register_handler_def Match_def first_in_tier_def)
  have m2: "Match failing_registry \<lparr> UpdateID = 2, Payload = Message ''hello'' \<rparr>
            = Some catch_all_handler"
    by (simp add: failing_registry_def Register_handler_def Match_def first_in_tier_def)
  have f: "callback failing_handler \<lparr> UpdateID = 1, Payload = Message ''/fail'' \<rparr> = Failed ''boom''"
    by (simp add: failing_handler_def)
  have lt: "UpdateID \<lparr> UpdateID = 1, Payload = Message ''/fail'' \<rparr>
            < UpdateID \<lparr> UpdateID = 2, Payload = Message ''hello'' \<rparr>"
    by simp
  from failing_handler_does_not_stop [OF lt m1 f m2, of "\<lparr> cursor = 0 \<rparr>"]
  show ?thesis
    by (simp add: failing_handler_def catch_all_handler_def)
qed

section \<open>The two update sources exclude each other\<close>

lemma step_preserves: "\<not> both_active b \<Longrightarrow> \<not> both_active (source_step b op)"
  by (cases op)
     (auto simp: both_active_def Poller_Start_def Poller_Stop_def Webhook_Register_def
        Webhook_Unregister_def setWebhook_def deleteWebhook_def simulated_remote_def Let_def
        split: if_splits)

lemma run_preserves: "\<not> both_active b \<Longrightarrow> \<not> both_active (run_sources b ops)"
  unfolding run_sources_def
  by (induction ops arbitrary: b) (simp_all add: step_preserves)

text \<open>
  C3. Starting the Poller while a webhook is registered with the remote service returns
  the configuration error and leaves the instance as it was, so no loop has begun;
  registering the webhook while a Poller is active returns the configuration error and
  leaves the instance as it was. Whatever sequence of starts, stops, registrations and
  unregistrations is run, from a state where not both sources are active (such as a fresh
  instance, whatever the remote service holds), never both are.
\<close>

theorem update_sources_exclusive:
  "(remote b \<noteq> None \<longrightarrow> Poller_Start b = (Some ConfigurationError, b))
   \<and> (poller b \<noteq> None \<longrightarrow> Webhook_Register b webhookURL = (Some ConfigurationError, b))
   \<and> (\<not> both_active b \<longrightarrow> \<not> both_active (run_sources b ops))
   \<and> \<not> both_active (run_sources \<lparr> client = c, remote = w, poller = None \<rparr> ops)"
proof -
  have "\<not> both_active \<lparr> client = c, remote = w, poller = None \<rparr>"
    by (simp add: both_active_def)
  then have "\<not> both_active (run_sources \<lparr> client = c, remote = w, poller = None \<rparr> ops)"
    by (rule run_preserves)
  then show ?thesis
    by (simp add: Poller_Start_def Webhook_Register_def run_preserves)
qed

theorem update_sources_exclusive_witness:
  "Poller_Start \<lparr> client = test_client, remote = Some ''https://example.com/hook'', poller = None \<rparr>
     = (Some ConfigurationError,
        \<lparr> client = test_client, remote = Some ''https://example.com/hook'', poller = None \<rparr>)
   \<and> Webhook_Register \<lparr> client = test_client, remote = None, poller = Some \<lparr> cursor = 0 \<rparr> \<rparr>
        ''https://example.com/hook''
     = (Some ConfigurationError,
        \<lparr> client = test_client, remote = None, poller = Some \<lparr> cursor = 0 \<rparr> \<rparr>)
   \<and> \<not> both_active
        (run_sources
           \<lparr> client = test_client, remote = Some ''https://example.com/hook'', poller = None \<rparr>
           [Start, Unregister, Start, Register ''https://example.com/hook''])
   \<and> run_sources
        \<lparr> client = test_client, remote = Some ''https://example.com/hook'', poller = None \<rparr>
        [Start, Unregister, Start, Register ''https://example.com/hook'']
     = \<lparr> client = test_client, remote = None, poller = Some \<lparr> cursor = 0 \<rparr> \<rparr>"
proof -
  have nb: "\<not> both_active
              \<lparr> client = test_client, remote = Some ''https://example.com/hook'', poller = None \<rparr>"
    by (simp add: both_active_def)
  have run: "run_sources
        \<lparr> client = test_client, remote = Some ''https://example.com/hook'', poller = None \<rparr>
        [Start, Unregister, Start, Register ''https://example.com/hook'']
     = \<lparr> client = test_client, remote = None, poller = Some \<lparr> cursor = 0 \<rparr> \<rparr>"
    by (simp add: run_sources_def Poller_Start_def Webhook_Unregister_def Webhook_Register_def
        deleteWebhook_def setWebhook_def simulated_remote_def)
  from nb run
    update_sources_exclusive
      [where b = "\<lparr> client = test_client, remote = Some ''https://example.com/hook'', poller = None \<rparr>"
        and ops = "[Start, Unregister, Start, Register ''https://example.com/hook'']"]
    update_sources_exclusive
      [where b = "\<lparr> client = test_client, remote = None, poller = Some \<lparr> cursor = 0 \<rparr> \<rparr>"
        and webhookURL = "''https://example.com/hook''"]
  show ?thesis by simp
qed

section \<open>Options are applied after the required parameters, in order\<close>

lemma apply_opts_Nil: "apply_opts req [] = req"
  by (simp add: apply_opts_def)

lemma apply_opts_append: "apply_opts req (os @ os') = apply_opts (apply_opts req os) os'"
  by (simp add: apply_opts_def)

lemma setting_upd: "setting key val r = r(key \<mapsto> [val])"
  by (simp add: setting_def Values_Set_def)

lemma last_params: "apply_opts b (os @ [setting k x]) k = Some [x]"
  by (simp add: apply_opts_snoc setting_upd)

lemma last_plain: "call_params (DoRequest m (apply_opts b (os @ [setting k x]))) k = Some [x]"
  by (simp add: last_params)

lemma last_files:
  "call_params (DoRequestWithFiles m (apply_opts b (os @ [setting k x])) w) k = Some [x]"
  by (simp add: last_params)

lemma last_thumb1:
  "call_params
     (let req = apply_opts b (os @ [setting k x])
      in if Values_Get req ''thumb'' = [] then DoRequest m req
         else DoRequestWithFiles m (Values_Del req ''thumb'')
                (files [\<lparr> field = ''thumb'', name = Values_Get req ''thumb'' \<rparr>])) k
     = (if k = ''thumb'' \<and> x \<noteq> [] then None else Some [x])"
proof (cases "k = ''thumb''")
  case True
  then show ?thesis
    by (simp add: Let_def last_params Values_Get_def Values_Del_def)
next
  case False
  then show ?thesis
    by (simp add: Let_def last_params Values_Get_def Values_Del_def)
qed

lemma last_thumb2:
  "call_params
     (let req = apply_opts b (os @ [setting k x])
      in if Values_Get req ''thumb'' = []
         then DoRequestWithFiles m req
                (files [\<lparr> field = fld, name = filename \<rparr>])
         else DoRequestWithFiles m (Values_Del req ''thumb'')
                (files [\<lparr> field = fld, name = filename \<rparr>,
                        \<lparr> field = ''thumb'', name = Values_Get req ''thumb'' \<rparr>])) k
     = (if k = ''thumb'' \<and> x \<noteq> [] then None else Some [x])"
proof (cases "k = ''thumb''")
  case True
  then show ?thesis
    by (simp add: Let_def last_params Values_Get_def Values_Del_def)
next
  case False
  then show ?thesis
    by (simp add: Let_def last_params Values_Get_def Values_Del_def)
qed

lemma moved_thumb1:
  "call_files
     (let req = apply_opts b (os @ [setting ''thumb'' x])
      in if Values_Get req ''thumb'' = [] then DoRequest m req
         else DoRequestWithFiles m (Values_Del req ''thumb'')
                (files [\<lparr> field = ''thumb'', name = Values_Get req ''thumb'' \<rparr>]))
     = (if x = [] then [] else [\<lparr> field = ''thumb'', name = x \<rparr>])"
  by (simp add: Let_def last_params Values_Get_def)

lemma moved_thumb2:
  "call_files
     (let req = apply_opts b (os @ [setting ''thumb'' x])
      in if Values_Get req ''thumb'' = []
         then DoRequestWithFiles m req
                (files [\<lparr> field = fld, name = filename \<rparr>])
         else DoRequestWithFiles m (Values_Del req ''thumb'')
                (files [\<lparr> field = fld, name = filename \<rparr>,
                        \<lparr> field = ''thumb'', name = Values_Get req ''thumb'' \<rparr>]))
     = (if x = [] then [\<lparr> field = fld, name = filename \<rparr>]
        else [\<lparr> field = fld, name = filename \<rparr>, \<lparr> field = ''thumb'', name = x \<rparr>])"
  by (simp add: Let_def last_params Values_Get_def)


lemma OptParseModeHTML_setting:
  "OptParseModeHTML = setting ''parse_mode'' ''HTML''"
  by (simp add: OptParseModeHTML_def setting_def structString_def)

lemma OptParseModeMarkdown_setting:
  "OptParseModeMarkdown = setting ''parse_mode'' ''Markdown''"
  by (simp add: OptParseModeMarkdown_def setting_def structString_def)

lemma OptDisableNotification_setting:
  "OptDisableNotification = setting ''disable_notification'' ''true''"
  by (simp add: OptDisableNotification_def setting_def structString_def)

lemma OptReplyToMessageID_setting:
  "OptReplyToMessageID id' = setting ''reply_to_message_id'' (strconv_Itoa id')"
  by (simp add: OptReplyToMessageID_def setting_def structString_def)

lemma OptDisableWebPagePreview_setting:
  "OptDisableWebPagePreview = setting ''disable_web_page_preview'' ''true''"
  by (simp add: OptDisableWebPagePreview_def setting_def structString_def)

lemma OptInlineKeyboardMarkup_setting:
  "OptInlineKeyboardMarkup marshal markup =
       setting ''reply_markup'' (structString marshal markup)"
  by (simp add: OptInlineKeyboardMarkup_def setting_def structString_def)

lemma OptReplyKeyboardMarkup_setting:
  "OptReplyKeyboardMarkup marshal markup =
       setting ''reply_markup'' (structString marshal markup)"
  by (simp add: OptReplyKeyboardMarkup_def setting_def structString_def)

lemma OptReplyKeyboardRemove_setting:
  "OptReplyKeyboardRemove marshal =
       setting ''reply_markup'' (structString marshal \<lparr> RemoveKeyboard = True, Selective = False \<rparr>)"
  by (simp add: OptReplyKeyboardRemove_def setting_def structString_def)

lemma OptReplyKeyboardRemoveSelective_setting:
  "OptReplyKeyboardRemoveSelective marshal =
       setting ''reply_markup'' (structString marshal \<lparr> RemoveKeyboard = True, Selective = True \<rparr>)"
  by (simp add: OptReplyKeyboardRemoveSelective_def setting_def structString_def)

lemma OptForceReply_setting:
  "OptForceReply marshal =
       setting ''reply_markup'' (structString marshal \<lparr> ForceReply = True, Selective = False \<rparr>)"
  by (simp add: OptForceReply_def setting_def structString_def)

lemma OptForceReplySelective_setting:
  "OptForceReplySelective marshal =
       setting ''reply_markup'' (structString marshal \<lparr> ForceReply = True, Selective = True \<rparr>)"
  by (simp add: OptForceReplySelective_def setting_def structString_def)

lemma OptDuration_setting:
  "OptDuration duration = setting ''duration'' (strconv_Itoa duration)"
  by (simp add: OptDuration_def setting_def structString_def)

lemma OptPerformer_setting:
  "OptPerformer performer = setting ''performer'' performer"
  by (simp add: OptPerformer_def setting_def structString_def)

lemma OptTitle_setting:
  "OptTitle title = setting ''title'' title"
  by (simp add: OptTitle_def setting_def structString_def)

lemma OptCaption_setting:
  "OptCaption caption = setting ''caption'' caption"
  by (simp add: OptCaption_def setting_def structString_def)

lemma OptWidth_setting:
  "OptWidth width = setting ''width'' (strconv_Itoa width)"
  by (simp add: OptWidth_def setting_def structString_def)

lemma OptHeight_setting:
  "OptHeight height = setting ''height'' (strconv_Itoa height)"
  by (simp add: OptHeight_def setting_def structString_def)

lemma OptSupportsStreaming_setting:
  "OptSupportsStreaming = setting ''supports_streaming'' ''true''"
  by (simp add: OptSupportsStreaming_def setting_def structString_def)

lemma OptThumb_setting:
  "OptThumb filename = setting ''thumb'' filename"
  by (simp add: OptThumb_def setting_def structString_def)

lemma OptLength_setting:
  "OptLength length' = setting ''length'' (fmt_Sprint_int length')"
  by (simp add: OptLength_def setting_def structString_def)

lemma OptLivePeriod_setting:
  "OptLivePeriod period = setting ''live_period'' (fmt_Sprint_int period)"
  by (simp add: OptLivePeriod_def setting_def structString_def)

lemma OptFoursquareID_setting:
  "OptFoursquareID foursquareID = setting ''foursquare_id'' foursquareID"
  by (simp add: OptFoursquareID_def setting_def structString_def)

lemma OptFoursquareType_setting:
  "OptFoursquareType foursquareType = setting ''foursquare_type'' foursquareType"
  by (simp add: OptFoursquareType_def setting_def structString_def)

lemma OptLastName_setting:
  "OptLastName lastName = setting ''last_name'' lastName"
  by (simp add: OptLastName_def setting_def structString_def)

lemma OptVCard_setting:
  "OptVCard vCard = setting ''vcard'' vCard"
  by (simp add: OptVCard_def setting_def structString_def)

lemma OptOffset_setting:
  "OptOffset offset = setting ''offset'' (fmt_Sprint_int offset)"
  by (simp add: OptOffset_def setting_def structString_def)

lemma OptLimit_setting:
  "OptLimit limit = setting ''limit'' (fmt_Sprint_int limit)"
  by (simp add: OptLimit_def setting_def structString_def)

lemma OptUntilDate_setting:
  "OptUntilDate Unix date = setting ''until_date'' (fmt_Sprint_int (Unix date))"
  by (simp add: OptUntilDate_def setting_def structString_def)

lemma OptText_setting:
  "OptText text = setting ''text'' text"
  by (simp add: OptText_def setting_def structString_def)

lemma OptShowAlert_setting:
  "OptShowAlert = setting ''show_alert'' ''true''"
  by (simp add: OptShowAlert_def setting_def structString_def)

lemma OptURL_setting:
  "OptURL u = setting ''url'' u"
  by (simp add: OptURL_def setting_def structString_def)

lemma OptCacheTime_setting:
  "OptCacheTime Seconds to_int d =
       setting ''cache_time'' (fmt_Sprint_int (to_int (Seconds d)))"
  by (simp add: OptCacheTime_def setting_def structString_def)

lemma OptContainsMasks_setting:
  "OptContainsMasks = setting ''contains_masks'' ''true''"
  by (simp add: OptContainsMasks_def setting_def structString_def)

lemma OptMaskPosition_setting:
  "OptMaskPosition marshal pos = setting ''mask_position'' (marshal pos)"
  by (simp add: OptMaskPosition_def setting_def structString_def)

lemma OptIsPersonal_setting:
  "OptIsPersonal = setting ''is_personal'' ''true''"
  by (simp add: OptIsPersonal_def setting_def structString_def)

lemma OptNextOffset_setting:
  "OptNextOffset offset = setting ''next_offset'' offset"
  by (simp add: OptNextOffset_def setting_def structString_def)

lemma OptSwitchPmText_setting:
  "OptSwitchPmText text = setting ''switch_pm_text'' text"
  by (simp add: OptSwitchPmText_def setting_def structString_def)

lemma OptSwitchPmParameter_setting:
  "OptSwitchPmParameter param = setting ''switch_pm_parameter'' param"
  by (simp add: OptSwitchPmParameter_def setting_def structString_def)

lemma OptProviderData_setting:
  "OptProviderData data = setting ''provider_data'' data"
  by (simp add: OptProviderData_def setting_def structString_def)

lemma OptPhotoURL_setting:
  "OptPhotoURL u = setting ''photo_url'' u"
  by (simp add: OptPhotoURL_def setting_def structString_def)

lemma OptPhotoSize_setting:
  "OptPhotoSize size' = setting ''photo_size'' (fmt_Sprint_int size')"
  by (simp add: OptPhotoSize_def setting_def structString_def)

lemma OptPhotoWidth_setting:
  "OptPhotoWidth width = setting ''photo_width'' (fmt_Sprint_int width)"
  by (simp add: OptPhotoWidth_def setting_def structString_def)

lemma OptPhotoHeight_setting:
  "OptPhotoHeight height = setting ''photo_height'' (fmt_Sprint_int height)"
  by (simp add: OptPhotoHeight_def setting_def structString_def)

lemma OptNeedName_setting:
  "OptNeedName = setting ''need_name'' ''true''"
  by (simp add: OptNeedName_def setting_def structString_def)

lemma OptNeedPhoneNumber_setting:
  "OptNeedPhoneNumber = setting ''need_phone_number'' ''true''"
  by (simp add: OptNeedPhoneNumber_def setting_def structString_def)

lemma OptNeedEmail_setting:
  "OptNeedEmail = setting ''need_email'' ''true''"
  by (simp add: OptNeedEmail_def setting_def structString_def)

lemma OptNeedShippingAddress_setting:
  "OptNeedShippingAddress = setting ''need_shipping_address'' ''true''"
  by (simp add: OptNeedShippingAddress_def setting_def structString_def)

lemma OptSendPhoneNumberToProvider_setting:
  "OptSendPhoneNumberToProvider = setting ''send_phone_number_to_provider'' ''true''"
  by (simp add: OptSendPhoneNumberToProvider_def setting_def structString_def)

lemma OptSendEmailToProvider_setting:
  "OptSendEmailToProvider = setting ''send_email_to_provider'' ''true''"
  by (simp add: OptSendEmailToProvider_def setting_def structString_def)

lemma OptIsFlexible_setting:
  "OptIsFlexible = setting ''is_flexible'' ''true''"
  by (simp add: OptIsFlexible_def setting_def structString_def)

lemma OptShippingOptions_setting:
  "OptShippingOptions marshal options = setting ''shipping_options'' (marshal options)"
  by (simp add: OptShippingOptions_def setting_def structString_def)

lemma OptErrorMessage_setting:
  "OptErrorMessage msg = setting ''error_message'' msg"
  by (simp add: OptErrorMessage_def setting_def structString_def)

lemma OptForce_setting:
  "OptForce = setting ''force'' ''true''"
  by (simp add: OptForce_def setting_def structString_def)

lemma OptDisableEditMessage_setting:
  "OptDisableEditMessage = setting ''disable_edit_message'' ''true''"
  by (simp add: OptDisableEditMessage_def setting_def structString_def)

lemma SendMessage_call:
  "SendMessage recording c chatID text opts
      = DoRequest ''sendMessage''
        (apply_opts (required [(''chat_id'', chatID), (''text'', text)]) opts)"
  by (simp add: SendMessage_def recording_def required_def Let_def files_Add_def
      newMultipartReaders_def readers_Add_def)

lemma SendMessage_last:
  "call_params (SendMessage recording c chatID text (os @ [setting k x])) k = Some [x]"
  unfolding SendMessage_call by (rule last_plain)

lemma ForwardMessage_call:
  "ForwardMessage recording c chatID fromChatID messageID opts
      = DoRequest ''forwardMessage''
        (apply_opts (required [(''chat_id'', chatID), (''from_chat_id'', fromChatID),
                               (''message_id'', strconv_Itoa messageID)]) opts)"
  by (simp add: ForwardMessage_def recording_def required_def Let_def files_Add_def
      newMultipartReaders_def readers_Add_def)

lemma ForwardMessage_last:
  "call_params (ForwardMessage recording c chatID fromChatID messageID
    (os @ [setting k x])) k = Some [x]"
  unfolding ForwardMessage_call by (rule last_plain)

lemma SendAudio_call:
  "SendAudio recording c chatID fileID opts
      = DoRequest ''sendAudio''
        (apply_opts (required [(''chat_id'', chatID), (''audio'', fileID)]) opts)"
  by (simp add: SendAudio_def recording_def required_def Let_def files_Add_def
      newMultipartReaders_def readers_Add_def)

lemma SendAudio_last:
  "call_params (SendAudio recording c chatID fileID (os @ [setting k x])) k = Some [x]"
  unfolding SendAudio_call by (rule last_plain)

lemma SendAudioFile_call:
  "SendAudioFile recording c chatID filename opts
      = DoRequestWithFiles ''sendAudio''
        (apply_opts (required [(''chat_id'', chatID)]) opts)
        (files [\<lparr> field = ''audio'', name = filename \<rparr>])"
  by (simp add: SendAudioFile_def recording_def required_def Let_def files_Add_def
      newMultipartReaders_def readers_Add_def)

lemma SendAudioFile_last:
  "call_params (SendAudioFile recording c chatID filename (os @ [setting k x])) k = Some [x]"
  unfolding SendAudioFile_call by (rule last_files)

lemma SendPhoto_call:
  "SendPhoto recording c chatID fileID opts
      = DoRequest ''sendPhoto''
        (apply_opts (required [(''chat_id'', chatID), (''photo'', fileID)]) opts)"
  by (simp add: SendPhoto_def recording_def required_def Let_def files_Add_def
      newMultipartReaders_def readers_Add_def)

lemma SendPhoto_last:
  "call_params (SendPhoto recording c chatID fileID (os @ [setting k x])) k = Some [x]"
  unfolding SendPhoto_call by (rule last_plain)

lemma SendPhotoFile_call:
  "SendPhotoFile recording c chatID filename opts
      = DoRequestWithFiles ''sendPhoto''
        (apply_opts (required [(''chat_id'', chatID)]) opts)
        (files [\<lparr> field = ''photo'', name = filename \<rparr>])"
  by (simp add: SendPhotoFile_def recording_def required_def Let_def files_Add_def
      newMultipartReaders_def readers_Add_def)

lemma SendPhotoFile_last:
  "call_params (SendPhotoFile recording c chatID filename (os @ [setting k x])) k = Some [x]"
  unfolding SendPhotoFile_call by (rule last_files)

lemma SendDocument_call:
  "SendDocument recording c chatID fileID opts
      = DoRequest ''sendDocument''
        (apply_opts (required [(''chat_id'', chatID), (''document'', fileID)]) opts)"
  by (simp add: SendDocument_def recording_def required_def Let_def files_Add_def
      newMultipartReaders_def readers_Add_def)

lemma SendDocument_last:
  "call_params (SendDocument recording c chatID fileID (os @ [setting k x])) k = Some [x]"
  unfolding SendDocument_call by (rule last_plain)

lemma SendDocumentFile_call:
  "SendDocumentFile recording c chatID filename opts
      = DoRequestWithFiles ''sendDocument''
        (apply_opts (required [(''chat_id'', chatID)]) opts)
        (files [\<lparr> field = ''document'', name = filename \<rparr>])"
  by (simp add: SendDocumentFile_def recording_def required_def Let_def files_Add_def
      newMultipartReaders_def readers_Add_def)

lemma SendDocumentFile_last:
  "call_params (SendDocumentFile recording c chatID filename (os @ [setting k x])) k = Some [x]"
  unfolding SendDocumentFile_call by (rule last_files)

lemma SendVideo_call:
  "SendVideo recording c chatID fileID opts
      = DoRequest ''sendVideo''
        (apply_opts (required [(''chat_id'', chatID), (''video'', fileID)]) opts)"
  by (simp add: SendVideo_def recording_def required_def Let_def files_Add_def
      newMultipartReaders_def readers_Add_def)

lemma SendVideo_last:
  "call_params (SendVideo recording c chatID fileID (os @ [setting k x])) k = Some [x]"
  unfolding SendVideo_call by (rule last_plain)

lemma SendVideoFile_call:
  "SendVideoFile recording c chatID filename opts
      = DoRequestWithFiles ''sendVideo''
        (apply_opts (required [(''chat_id'', chatID)]) opts)
        (files [\<lparr> field = ''video'', name = filename \<rparr>])"
  by (simp add: SendVideoFile_def recording_def required_def Let_def files_Add_def
      newMultipartReaders_def readers_Add_def)

lemma SendVideoFile_last:
  "call_params (SendVideoFile recording c chatID filename (os @ [setting k x])) k = Some [x]"
  unfolding SendVideoFile_call by (rule last_files)

lemma SendAnimation_call:
  "SendAnimation recording c chatID fileID opts
      = (let req = apply_opts (required [(''chat_id'', chatID), (''animation'', fileID)]) opts
      in if Values_Get req ''thumb'' = [] then DoRequest ''sendAnimation'' req
         else DoRequestWithFiles ''sendAnimation'' (Values_Del req ''thumb'')
                (files [\<lparr> field = ''thumb'', name = Values_Get req ''thumb'' \<rparr>]))"
  by (simp add: SendAnimation_def recording_def required_def Let_def files_Add_def
      newMultipartReaders_def readers_Add_def)

lemma SendAnimation_last:
  "call_params (SendAnimation recording c chatID fileID (os @ [setting k x])) k
      = (if k = ''thumb'' \<and> x \<noteq> [] then None else Some [x])"
  unfolding SendAnimation_call by (rule last_thumb1)

lemma SendAnimation_moved:
  "call_files (SendAnimation recording c chatID fileID (os @ [setting ''thumb'' x]))
      = (if x = [] then [] else [\<lparr> field = ''thumb'', name = x \<rparr>])"
  unfolding SendAnimation_call by (rule moved_thumb1)

lemma SendAnimationFile_call:
  "SendAnimationFile recording c chatID filename opts
      = (let req = apply_opts (required [(''chat_id'', chatID)]) opts
      in if Values_Get req ''thumb'' = []
         then DoRequestWithFiles ''sendAnimation'' req
                (files [\<lparr> field = ''animation'', name = filename \<rparr>])
         else DoRequestWithFiles ''sendAnimation'' (Values_Del req ''thumb'')
                (files [\<lparr> field = ''animation'', name = filename \<rparr>,
                        \<lparr> field = ''thumb'', name = Values_Get req ''thumb'' \<rparr>]))"
  by (simp add: SendAnimationFile_def recording_def required_def Let_def files_Add_def
      newMultipartReaders_def readers_Add_def)

lemma SendAnimationFile_last:
  "call_params (SendAnimationFile recording c chatID filename (os @ [setting k x])) k
      = (if k = ''thumb'' \<and> x \<noteq> [] then None else Some [x])"
  unfolding SendAnimationFile_call by (rule last_thumb2)

lemma SendAnimationFile_moved:
  "call_files (SendAnimationFile recording c chatID filename (os @ [setting ''thumb'' x]))
      = (if x = [] then [\<lparr> field = ''animation'', name = filename \<rparr>]
         else [\<lparr> field = ''animation'', name = filename \<rparr>,
               \<lparr> field = ''thumb'', name = x \<rparr>])"
  unfolding SendAnimationFile_call by (rule moved_thumb2)

lemma SendVoice_call:
  "SendVoice recording c chatID fileID opts
      = DoRequest ''sendVoice''
        (apply_opts (required [(''chat_id'', chatID), (''voice'', fileID)]) opts)"
  by (simp add: SendVoice_def recording_def required_def Let_def files_Add_def
      newMultipartReaders_def readers_Add_def)

lemma SendVoice_last:
  "call_params (SendVoice recording c chatID fileID (os @ [setting k x])) k = Some [x]"
  unfolding SendVoice_call by (rule last_plain)

lemma SendVoiceFile_call:
  "SendVoiceFile recording c chatID filename opts
      = DoRequestWithFiles ''sendVoice''
        (apply_opts (required [(''chat_id'', chatID)]) opts)
        (files [\<lparr> field = ''voice'', name = filename \<rparr>])"
  by (simp add: SendVoiceFile_def recording_def required_def Let_def files_Add_def
      newMultipartReaders_def readers_Add_def)

lemma SendVoiceFile_last:
  "call_params (SendVoiceFile recording c chatID filename (os @ [setting k x])) k = Some [x]"
  unfolding SendVoiceFile_call by (rule last_files)

lemma SendVideoNote_call:
  "SendVideoNote recording c chatID fileID opts
      = (let req = apply_opts (required [(''chat_id'', chatID), (''video_note'', fileID)]) opts
      in if Values_Get req ''thumb'' = [] then DoRequest ''sendVideoNote'' req
         else DoRequestWithFiles ''sendVideoNote'' (Values_Del req ''thumb'')
                (files [\<lparr> field = ''thumb'', name = Values_Get req ''thumb'' \<rparr>]))"
  by (simp add: SendVideoNote_def recording_def required_def Let_def files_Add_def
      newMultipartReaders_def readers_Add_def)

lemma SendVideoNote_last:
  "call_params (SendVideoNote recording c chatID fileID (os @ [setting k x])) k
      = (if k = ''thumb'' \<and> x \<noteq> [] then None else Some [x])"
  unfolding SendVideoNote_call by (rule last_thumb1)

lemma SendVideoNote_moved:
  "call_files (SendVideoNote recording c chatID fileID (os @ [setting ''thumb'' x]))
      = (if x = [] then [] else [\<lparr> field = ''thumb'', name = x \<rparr>])"
  unfolding SendVideoNote_call by (rule moved_thumb1)

lemma SendVideoNoteFile_call:
  "SendVideoNoteFile recording c chatID filename opts
      = (let req = apply_opts (required [(''chat_id'', chatID)]) opts
      in if Values_Get req ''thumb'' = []
         then DoRequestWithFiles ''sendVideoNote'' req
                (files [\<lparr> field = ''video_note'', name = filename \<rparr>])
         else DoRequestWithFiles ''sendVideoNote'' (Values_Del req ''thumb'')
                (files [\<lparr> field = ''video_note'', name = filename \<rparr>,
                        \<lparr> field = ''thumb'', name = Values_Get req ''thumb'' \<rparr>]))"
  by (simp add: SendVideoNoteFile_def recording_def required_def Let_def files_Add_def
      newMultipartReaders_def readers_Add_def)

lemma SendVideoNoteFile_last:
  "call_params (SendVideoNoteFile recording c chatID filename (os @ [setting k x])) k
      = (if k = ''thumb'' \<and> x \<noteq> [] then None else Some [x])"
  unfolding SendVideoNoteFile_call by (rule last_thumb2)

lemma SendVideoNoteFile_moved:
  "call_files (SendVideoNoteFile recording c chatID filename (os @ [setting ''thumb'' x]))
      = (if x = [] then [\<lparr> field = ''video_note'', name = filename \<rparr>]
         else [\<lparr> field = ''video_note'', name = filename \<rparr>,
               \<lparr> field = ''thumb'', name = x \<rparr>])"
  unfolding SendVideoNoteFile_call by (rule moved_thumb2)

lemma SendMediaGroup_call:
  "SendMediaGroup recording marshal c chatID media opts
      = DoRequest ''sendMediaGroup''
        (apply_opts (required [(''chat_id'', chatID), (''media'', marshal media)]) opts)"
  by (simp add: SendMediaGroup_def recording_def required_def Let_def files_Add_def
      newMultipartReaders_def readers_Add_def)

lemma SendMediaGroup_last:
  "call_params (SendMediaGroup recording marshal c chatID media (os @ [setting k x])) k = Some [x]"
  unfolding SendMediaGroup_call by (rule last_plain)

lemma SendLocation_call:
  "SendLocation recording sprint c chatID latitude longitude opts
      = DoRequest ''sendLocation''
        (apply_opts (required [(''chat_id'', chatID), (''latitude'', sprint latitude),
                               (''longitude'', sprint longitude)]) opts)"
  by (simp add: SendLocation_def recording_def required_def Let_def files_Add_def
      newMultipartReaders_def readers_Add_def)

lemma SendLocation_last:
  "call_params (SendLocation recording sprint c chatID latitude longitude
    (os @ [setting k x])) k = Some [x]"
  unfolding SendLocation_call by (rule last_plain)

lemma EditMessageLiveLocation_call:
  "EditMessageLiveLocation recording sprint c chatID messageID latitude longitude opts
      = DoRequest ''editMessageLiveLocation''
        (apply_opts (required [(''chat_id'', chatID),
                               (''message_id'', fmt_Sprint_int messageID),
                               (''latitude'', sprint latitude),
                               (''longitude'', sprint longitude)]) opts)"
  by (simp add: EditMessageLiveLocation_def recording_def required_def Let_def files_Add_def
      newMultipartReaders_def readers_Add_def)

lemma EditMessageLiveLocation_last:
  "call_params (EditMessageLiveLocation recording sprint c chatID messageID latitude longitude
    (os @ [setting k x])) k = Some [x]"
  unfolding EditMessageLiveLocation_call by (rule last_plain)

lemma EditInlineMessageLiveLocation_call:
  "EditInlineMessageLiveLocation recording sprint c inlineMessageID latitude longitude opts
      = DoRequest ''editMessageLiveLocation''
        (apply_opts (required [(''inline_message_id'', inlineMessageID),
                               (''latitude'', sprint latitude),
                               (''longitude'', sprint longitude)]) opts)"
  by (simp add: EditInlineMessageLiveLocation_def recording_def required_def Let_def files_Add_def
      newMultipartReaders_def readers_Add_def)

lemma EditInlineMessageLiveLocation_last:
  "call_params (EditInlineMessageLiveLocation recording sprint c inlineMessageID latitude longitude
    (os @ [setting k x])) k = Some [x]"
  unfolding EditInlineMessageLiveLocation_call by (rule last_plain)

lemma StopMessageLiveLocation_call:
  "StopMessageLiveLocation recording c chatID messageID opts
      = DoRequest ''stopMessageLiveLocation''
        (apply_opts (required [(''chat_id'', chatID),
                               (''message_id'', fmt_Sprint_int messageID)]) opts)"
  by (simp add: StopMessageLiveLocation_def recording_def required_def Let_def files_Add_def
      newMultipartReaders_def readers_Add_def)

lemma StopMessageLiveLocation_last:
  "call_params (StopMessageLiveLocation recording c chatID messageID
    (os @ [setting k x])) k = Some [x]"
  unfolding StopMessageLiveLocation_call by (rule last_plain)

lemma StopInlineMessageLiveLocation_call:
  "StopInlineMessageLiveLocation recording c inlineMessageID opts
      = DoRequest ''stopMessageLiveLocation''
        (apply_opts (required [(''inline_message_id'', inlineMessageID)]) opts)"
  by (simp add: StopInlineMessageLiveLocation_def recording_def required_def Let_def files_Add_def
      newMultipartReaders_def readers_Add_def)

lemma StopInlineMessageLiveLocation_last:
  "call_params (StopInlineMessageLiveLocation recording c inlineMessageID
    (os @ [setting k x])) k = Some [x]"
  unfolding StopInlineMessageLiveLocation_call by (rule last_plain)

lemma SendVenue_call:
  "SendVenue recording sprint c chatID latitude longitude title address opts
      = DoRequest ''sendVenue''
        (apply_opts (required [(''chat_id'', chatID), (''latitude'', sprint latitude),
                               (''longitude'', sprint longitude), (''title'', title),
                               (''address'', address)]) opts)"
  by (simp add: SendVenue_def recording_def required_def Let_def files_Add_def
      newMultipartReaders_def readers_Add_def)

lemma SendVenue_last:
  "call_params (SendVenue recording sprint c chatID latitude longitude title address
    (os @ [setting k x])) k = Some [x]"
  unfolding SendVenue_call by (rule last_plain)

lemma SendContact_call:
  "SendContact recording c chatID phoneNumber firstName opts
      = DoRequest ''sendContact''
        (apply_opts (required [(''chat_id'', chatID), (''phone_number'', phoneNumber),
                               (''first_name'', firstName)]) opts)"
  by (simp add: SendContact_def recording_def required_def Let_def files_Add_def
      newMultipartReaders_def readers_Add_def)

lemma SendContact_last:
  "call_params (SendContact recording c chatID phoneNumber firstName
    (os @ [setting k x])) k = Some [x]"
  unfolding SendContact_call by (rule last_plain)

lemma GetUserProfilePhotos_call:
  "GetUserProfilePhotos recording c userID opts
      = DoRequest ''getUserProfilePhotos''
        (apply_opts (required [(''user_id'', fmt_Sprint_int userID)]) opts)"
  by (simp add: GetUserProfilePhotos_def recording_def required_def Let_def files_Add_def
      newMultipartReaders_def readers_Add_def)

lemma GetUserProfilePhotos_last:
  "call_params (GetUserProfilePhotos recording c userID (os @ [setting k x])) k = Some [x]"
  unfolding GetUserProfilePhotos_call by (rule last_plain)

lemma KickChatMember_call:
  "KickChatMember recording c chatID userID opts
      = DoRequest ''kickChatMember''
        (apply_opts (required [(''chat_id'', chatID), (''user_id'', fmt_Sprint_int userID)]) opts)"
  by (simp add: KickChatMember_def recording_def required_def Let_def files_Add_def
      newMultipartReaders_def readers_Add_def)

lemma KickChatMember_last:
  "call_params (KickChatMember recording c chatID userID (os @ [setting k x])) k = Some [x]"
  unfolding KickChatMember_call by (rule last_plain)

lemma RestrictChatMember_call:
  "RestrictChatMember recording c chatID userID (Some r) opts
      = Some (DoRequest ''restrictChatMember''
        (apply_opts (required [(''chat_id'', chatID), (''user_id'', fmt_Sprint_int userID),
                               (''can_send_messages'', fmt_Sprint_bool (CanSendMessages r)),
                               (''can_send_media_messages'', fmt_Sprint_bool (CanSendMediaMessages r)),
                               (''can_send_other_messages'', fmt_Sprint_bool (CanSendOtherMessages r)),
                               (''can_add_web_page_previews'', fmt_Sprint_bool (CanAddWebPagePreviews r))]) opts))"
  by (simp add: RestrictChatMember_def recording_def required_def Let_def files_Add_def
      newMultipartReaders_def readers_Add_def)

lemma RestrictChatMember_last:
  "map_option (\<lambda>sent. call_params sent k)
        (RestrictChatMember recording c chatID userID (Some r)
            (os @ [setting k x])) = Some (Some [x])"
  unfolding RestrictChatMember_call by (simp add: last_params)

lemma PinChatMessage_call:
  "PinChatMessage recording c chatID messageID opts
      = DoRequest ''pinChatMessage''
        (apply_opts (required [(''chat_id'', chatID),
                               (''message_id'', fmt_Sprint_int messageID)]) opts)"
  by (simp add: PinChatMessage_def recording_def required_def Let_def files_Add_def
      newMultipartReaders_def readers_Add_def)

lemma PinChatMessage_last:
  "call_params (PinChatMessage recording c chatID messageID (os @ [setting k x])) k = Some [x]"
  unfolding PinChatMessage_call by (rule last_plain)

lemma AnswerCallbackQuery_call:
  "AnswerCallbackQuery recording c callbackQueryID opts
      = DoRequest ''answerCallbackQuery''
        (apply_opts (required [(''callback_query_id'', callbackQueryID)]) opts)"
  by (simp add: AnswerCallbackQuery_def recording_def required_def Let_def files_Add_def
      newMultipartReaders_def readers_Add_def)

lemma AnswerCallbackQuery_last:
  "call_params (AnswerCallbackQuery recording c callbackQueryID (os @ [setting k x])) k = Some [x]"
  unfolding AnswerCallbackQuery_call by (rule last_plain)

lemma EditMessageText_call:
  "EditMessageText recording c chatID messageID text opts
      = DoRequest ''editMessageText''
        (apply_opts (required [(''chat_id'', chatID),
                               (''message_id'', fmt_Sprint_int messageID), (''text'', text)]) opts)"
  by (simp add: EditMessageText_def recording_def required_def Let_def files_Add_def
      newMultipartReaders_def readers_Add_def)

lemma EditMessageText_last:
  "call_params (EditMessageText recording c chatID messageID text (os @ [setting k x])) k = Some [x]"
  unfolding EditMessageText_call by (rule last_plain)

lemma EditInlineMessageText_call:
  "EditInlineMessageText recording c inlineMessageID text opts
      = DoRequest ''editMessageText''
        (apply_opts (required [(''inline_message_id'', inlineMessageID), (''text'', text)]) opts)"
  by (simp add: EditInlineMessageText_def recording_def required_def Let_def files_Add_def
      newMultipartReaders_def readers_Add_def)

lemma EditInlineMessageText_last:
  "call_params (EditInlineMessageText recording c inlineMessageID text
    (os @ [setting k x])) k = Some [x]"
  unfolding EditInlineMessageText_call by (rule last_plain)

lemma EditMessageCaption_call:
  "EditMessageCaption recording c chatID messageID caption opts
      = DoRequest ''editMessageCaption''
        (apply_opts (required [(''chat_id'', chatID),
                               (''message_id'', fmt_Sprint_int messageID),
                               (''caption'', caption)]) opts)"
  by (simp add: EditMessageCaption_def recording_def required_def Let_def files_Add_def
      newMultipartReaders_def readers_Add_def)

lemma EditMessageCaption_last:
  "call_params (EditMessageCaption recording c chatID messageID caption
    (os @ [setting k x])) k = Some [x]"
  unfolding EditMessageCaption_call by (rule last_plain)

lemma EditInlineMessageCaption_call:
  "EditInlineMessageCaption recording c inlineMessageID caption opts
      = DoRequest ''editMessageCaption''
        (apply_opts (required [(''inline_message_id'', inlineMessageID),
                               (''caption'', caption)]) opts)"
  by (simp add: EditInlineMessageCaption_def recording_def required_def Let_def files_Add_def
      newMultipartReaders_def readers_Add_def)

lemma EditInlineMessageCaption_last:
  "call_params (EditInlineMessageCaption recording c inlineMessageID caption
    (os @ [setting k x])) k = Some [x]"
  unfolding EditInlineMessageCaption_call by (rule last_plain)

lemma EditMessageReplyMarkup_call:
  "EditMessageReplyMarkup recording c chatID messageID opts
      = DoRequest ''editMessageReplyMarkup''
        (apply_opts (required [(''chat_id'', chatID),
                               (''message_id'', fmt_Sprint_int messageID)]) opts)"
  by (simp add: EditMessageReplyMarkup_def recording_def required_def Let_def files_Add_def
      newMultipartReaders_def readers_Add_def)

lemma EditMessageReplyMarkup_last:
  "call_params (EditMessageReplyMarkup recording c chatID messageID
    (os @ [setting k x])) k = Some [x]"
  unfolding EditMessageReplyMarkup_call by (rule last_plain)

lemma EditInlineMessageReplyMarkup_call:
  "EditInlineMessageReplyMarkup recording c inlineMessageID opts
      = DoRequest ''editMessageReplyMarkup''
        (apply_opts (required [(''inline_message_id'', inlineMessageID)]) opts)"
  by (simp add: EditInlineMessageReplyMarkup_def recording_def required_def Let_def files_Add_def
      newMultipartReaders_def readers_Add_def)

lemma EditInlineMessageReplyMarkup_last:
  "call_params (EditInlineMessageReplyMarkup recording c inlineMessageID
    (os @ [setting k x])) k = Some [x]"
  unfolding EditInlineMessageReplyMarkup_call by (rule last_plain)

lemma SendStickerFile_call:
  "SendStickerFile recording c chatID filename opts
      = DoRequestWithFiles ''sendSticker''
        (apply_opts (required [(''chat_id'', chatID)]) opts)
        (files [\<lparr> field = ''sticker'', name = filename \<rparr>])"
  by (simp add: SendStickerFile_def recording_def required_def Let_def files_Add_def
      newMultipartReaders_def readers_Add_def)

lemma SendStickerFile_last:
  "call_params (SendStickerFile recording c chatID filename (os @ [setting k x])) k = Some [x]"
  unfolding SendStickerFile_call by (rule last_files)

lemma SendStickerReader_call:
  "SendStickerReader recording c chatID r opts
      = DoRequestWithFiles ''sendSticker''
        (apply_opts (required [(''chat_id'', chatID)]) opts)
        (readers [''sticker'' \<mapsto> r])"
  by (simp add: SendStickerReader_def recording_def required_def Let_def files_Add_def
      newMultipartReaders_def readers_Add_def)

lemma SendStickerReader_last:
  "call_params (SendStickerReader recording c chatID r (os @ [setting k x])) k = Some [x]"
  unfolding SendStickerReader_call by (rule last_files)

lemma SendSticker_call:
  "SendSticker recording c chatID fileID opts
      = DoRequest ''sendSticker''
        (apply_opts (required [(''chat_id'', chatID), (''sticker'', fileID)]) opts)"
  by (simp add: SendSticker_def recording_def required_def Let_def files_Add_def
      newMultipartReaders_def readers_Add_def)

lemma SendSticker_last:
  "call_params (SendSticker recording c chatID fileID (os @ [setting k x])) k = Some [x]"
  unfolding SendSticker_call by (rule last_plain)

lemma CreateNewStickerSetFile_call:
  "CreateNewStickerSetFile recording c userID name' title stickerFilename emojis opts
      = DoRequestWithFiles ''createNewStickerSet''
        (apply_opts (required [(''user_id'', fmt_Sprint_int userID), (''name'', name'),
                               (''title'', title), (''emojis'', emojis)]) opts)
        (files [\<lparr> field = ''png_sticker'', name = stickerFilename \<rparr>])"
  by (simp add: CreateNewStickerSetFile_def recording_def required_def Let_def files_Add_def
      newMultipartReaders_def readers_Add_def)

lemma CreateNewStickerSetFile_last:
  "call_params (CreateNewStickerSetFile recording c userID name' title stickerFilename emojis
    (os @ [setting k x])) k = Some [x]"
  unfolding CreateNewStickerSetFile_call by (rule last_files)

lemma CreateNewStickerSetReader_call:
  "CreateNewStickerSetReader recording c userID name' title r emojis opts
      = DoRequestWithFiles ''createNewStickerSet''
        (apply_opts (required [(''user_id'', fmt_Sprint_int userID), (''name'', name'),
                               (''title'', title), (''emojis'', emojis)]) opts)
        (readers [''png_sticker'' \<mapsto> r])"
  by (simp add: CreateNewStickerSetReader_def recording_def required_def Let_def files_Add_def
      newMultipartReaders_def readers_Add_def)

lemma CreateNewStickerSetReader_last:
  "call_params (CreateNewStickerSetReader recording c userID name' title r emojis
    (os @ [setting k x])) k = Some [x]"
  unfolding CreateNewStickerSetReader_call by (rule last_files)

lemma CreateNewStickerSet_call:
  "CreateNewStickerSet recording c userID name' title fileID emojis opts
      = DoRequest ''createNewStickerSet''
        (apply_opts (required [(''user_id'', fmt_Sprint_int userID), (''name'', name'),
                               (''title'', title), (''png_sticker'', fileID),
                               (''emojis'', emojis)]) opts)"
  by (simp add: CreateNewStickerSet_def recording_def required_def Let_def files_Add_def
      newMultipartReaders_def readers_Add_def)

lemma CreateNewStickerSet_last:
  "call_params (CreateNewStickerSet recording c userID name' title fileID emojis
    (os @ [setting k x])) k = Some [x]"
  unfolding CreateNewStickerSet_call by (rule last_plain)

lemma AddStickerToSetFile_call:
  "AddStickerToSetFile recording c userID name' filename emojis opts
      = DoRequestWithFiles ''addStickerToSet''
        (apply_opts (required [(''user_id'', fmt_Sprint_int userID), (''name'', name'),
                               (''emojis'', emojis)]) opts)
        (files [\<lparr> field = ''png_sticker'', name = filename \<rparr>])"
  by (simp add: AddStickerToSetFile_def recording_def required_def Let_def files_Add_def
      newMultipartReaders_def readers_Add_def)

lemma AddStickerToSetFile_last:
  "call_params (AddStickerToSetFile recording c userID name' filename emojis
    (os @ [setting k x])) k = Some [x]"
  unfolding AddStickerToSetFile_call by (rule last_files)

lemma AddStickerToSetReader_call:
  "AddStickerToSetReader recording c userID name' r emojis opts
      = DoRequestWithFiles ''addStickerToSet''
        (apply_opts (required [(''user_id'', fmt_Sprint_int userID), (''name'', name'),
                               (''emojis'', emojis)]) opts)
        (readers [''png_sticker'' \<mapsto> r])"
  by (simp add: AddStickerToSetReader_def recording_def required_def Let_def files_Add_def
      newMultipartReaders_def readers_Add_def)

lemma AddStickerToSetReader_last:
  "call_params (AddStickerToSetReader recording c userID name' r emojis
    (os @ [setting k x])) k = Some [x]"
  unfolding AddStickerToSetReader_call by (rule last_files)

lemma AddStickerToSet_call:
  "AddStickerToSet recording c userID name' fileID emojis opts
      = DoRequest ''addStickerToSet''
        (apply_opts (required [(''user_id'', fmt_Sprint_int userID), (''name'', name'),
                               (''png_sticker'', fileID), (''emojis'', emojis)]) opts)"
  by (simp add: AddStickerToSet_def recording_def required_def Let_def files_Add_def
      newMultipartReaders_def readers_Add_def)

lemma AddStickerToSet_last:
  "call_params (AddStickerToSet recording c userID name' fileID emojis
    (os @ [setting k x])) k = Some [x]"
  unfolding AddStickerToSet_call by (rule last_plain)

lemma AnswerInlineQuery_call:
  "AnswerInlineQuery recording marshal c inlineQueryID results opts
      = DoRequest ''answerInlineQuery''
        (apply_opts (required [(''inline_query_id'', inlineQueryID),
                               (''results'', marshal results)]) opts)"
  by (simp add: AnswerInlineQuery_def recording_def required_def Let_def files_Add_def
      newMultipartReaders_def readers_Add_def)

lemma AnswerInlineQuery_last:
  "call_params (AnswerInlineQuery recording marshal c inlineQueryID results
    (os @ [setting k x])) k = Some [x]"
  unfolding AnswerInlineQuery_call by (rule last_plain)

lemma SendInvoice_call:
  "SendInvoice recording marshal c chatID payload providerToken (Some invoice) prices opts
      = Some (DoRequest ''sendInvoice''
        (apply_opts (required [(''chat_id'', chatID), (''title'', Title invoice),
                               (''description'', Description invoice),
                               (''payload'', payload), (''provider_token'', providerToken),
                               (''start_parameter'', StartParameter invoice),
                               (''currency'', Currency invoice), (''prices'', marshal prices)]) opts))"
  by (simp add: SendInvoice_def recording_def required_def Let_def files_Add_def
      newMultipartReaders_def readers_Add_def)

lemma SendInvoice_last:
  "map_option (\<lambda>sent. call_params sent k)
        (SendInvoice recording marshal c chatID payload providerToken (Some invoice) prices
            (os @ [setting k x])) = Some (Some [x])"
  unfolding SendInvoice_call by (simp add: last_params)

lemma AnswerShippingQuery_call:
  "AnswerShippingQuery recording c shippingQueryID ok opts
      = DoRequest ''answerShippingQuery''
        (apply_opts (required [(''shipping_query_id'', shippingQueryID),
                               (''ok'', fmt_Sprint_bool ok)]) opts)"
  by (simp add: AnswerShippingQuery_def recording_def required_def Let_def files_Add_def
      newMultipartReaders_def readers_Add_def)

lemma AnswerShippingQuery_last:
  "call_params (AnswerShippingQuery recording c shippingQueryID ok (os @ [setting k x])) k = Some [x]"
  unfolding AnswerShippingQuery_call by (rule last_plain)

lemma AnswerPreCheckoutQuery_call:
  "AnswerPreCheckoutQuery recording c preCheckoutQueryID ok opts
      = DoRequest ''answerPreCheckoutQuery''
        (apply_opts (required [(''pre_checkout_query_id'', preCheckoutQueryID),
                               (''ok'', fmt_Sprint_bool ok)]) opts)"
  by (simp add: AnswerPreCheckoutQuery_def recording_def required_def Let_def files_Add_def
      newMultipartReaders_def readers_Add_def)

lemma AnswerPreCheckoutQuery_last:
  "call_params (AnswerPreCheckoutQuery recording c preCheckoutQueryID ok
    (os @ [setting k x])) k = Some [x]"
  unfolding AnswerPreCheckoutQuery_call by (rule last_plain)

lemma SendGame_call:
  "SendGame recording c chatID gameShortName opts
      = DoRequest ''sendGame''
        (apply_opts (required [(''chat_id'', chatID), (''game_short_name'', gameShortName)]) opts)"
  by (simp add: SendGame_def recording_def required_def Let_def files_Add_def
      newMultipartReaders_def readers_Add_def)

lemma SendGame_last:
  "call_params (SendGame recording c chatID gameShortName (os @ [setting k x])) k = Some [x]"
  unfolding SendGame_call by (rule last_plain)

lemma SetGameScore_call:
  "SetGameScore recording c chatID messageID userID score opts
      = DoRequest ''setGameScore''
        (apply_opts (required [(''chat_id'', chatID),
                               (''message_id'', fmt_Sprint_int messageID),
                               (''user_id'', fmt_Sprint_int userID),
                               (''score'', fmt_Sprint_int score)]) opts)"
  by (simp add: SetGameScore_def recording_def required_def Let_def files_Add_def
      newMultipartReaders_def readers_Add_def)

lemma SetGameScore_last:
  "call_params (SetGameScore recording c chatID messageID userID score
    (os @ [setting k x])) k = Some [x]"
  unfolding SetGameScore_call by (rule last_plain)

lemma SetInlineGameScore_call:
  "SetInlineGameScore recording c inlineMessageID userID score opts
      = DoRequest ''setGameScore''
        (apply_opts (required [(''inline_message_id'', inlineMessageID),
                               (''user_id'', fmt_Sprint_int userID),
                               (''score'', fmt_Sprint_int score)]) opts)"
  by (simp add: SetInlineGameScore_def recording_def required_def Let_def files_Add_def
      newMultipartReaders_def readers_Add_def)

lemma SetInlineGameScore_last:
  "call_params (SetInlineGameScore recording c inlineMessageID userID score
    (os @ [setting k x])) k = Some [x]"
  unfolding SetInlineGameScore_call by (rule last_plain)

lemma SendPoll_call:
  "SendPoll recording marshal c chatID question options opts
      = DoRequest ''sendPoll''
        (apply_opts (required [(''chat_id'', chatID), (''question'', question),
                               (''options'', marshal options)]) opts)"
  by (simp add: SendPoll_def recording_def required_def Let_def files_Add_def
      newMultipartReaders_def readers_Add_def)

lemma SendPoll_last:
  "call_params (SendPoll recording marshal c chatID question options
    (os @ [setting k x])) k = Some [x]"
  unfolding SendPoll_call by (rule last_plain)

lemma StopPoll_call:
  "StopPoll recording c chatID messageID opts
      = DoRequest ''stopPoll''
        (apply_opts (required [(''chat_id'', chatID), (''message_id'', messageID)]) opts)"
  by (simp add: StopPoll_def recording_def required_def Let_def files_Add_def
      newMultipartReaders_def readers_Add_def)

lemma StopPoll_last:
  "call_params (StopPoll recording c chatID messageID (os @ [setting k x])) k = Some [x]"
  unfolding StopPoll_call by (rule last_plain)

lemma SendMessage_overrides_text:
  "call_params (SendMessage recording c chatID text (os @ [OptText x])) ''text'' = Some [x]"
  unfolding SendMessage_call OptText_setting by (simp add: last_params)


text \<open>
  C10, as stated, fails for the key \<open>thumb\<close> in the animation and video-note builders:
  the last option writes \<open>t.png\<close> under \<open>thumb\<close>, and the parameter map of the request
  that is issued holds nothing under that key.
\<close>

theorem last_option_thumb_counterexample:
  "call_params (SendAnimation (recording :: (unit call, unit) Transport)
                  test_client ''123'' ''aaa'' [OptThumb ''a.png'', OptThumb ''t.png'']) ''thumb''
     = None"
  by (simp add: SendAnimation_def recording_def apply_opts_def OptThumb_def Let_def
      Values_Set_def Values_Get_def Values_Del_def)

text \<open>
  C10, amended. Every request builder that takes options sets its required parameters
  first and then runs the options over the map, in argument order: what it hands to the
  transport is \<open>apply_opts (required \<dots>) opts\<close>, except that \<open>SendAnimation\<close>,
  \<open>SendAnimationFile\<close>, \<open>SendVideoNote\<close> and \<open>SendVideoNoteFile\<close> then take a non-empty
  \<open>thumb\<close> out of the map and attach the file of that name instead. The loop applies the
  options from left to right, and every predefined option is one \<open>Set\<close>, which replaces
  whatever its key held. Hence, when the last option sets a key, the parameter map of the
  request holds exactly the value it wrote for that key, required parameters included
  (\<open>OptText\<close> as the last option overrides the text given to \<open>SendMessage\<close>); the one
  exception is a non-empty \<open>thumb\<close> in those four builders, where the key is absent from
  the map and the last value written is the name of the file attached under \<open>thumb\<close>.
\<close>

theorem options_after_required:
  "apply_opts req [] = req
   \<and> apply_opts req (os @ [opt]) = opt (apply_opts req os)
   \<and> setting key val params = params(key \<mapsto> [val])
   \<and> OptParseModeHTML = setting ''parse_mode'' ''HTML''
   \<and> OptParseModeMarkdown = setting ''parse_mode'' ''Markdown''
   \<and> OptDisableNotification = setting ''disable_notification'' ''true''
   \<and> OptReplyToMessageID id' = setting ''reply_to_message_id'' (strconv_Itoa id')
   \<and> OptDisableWebPagePreview = setting ''disable_web_page_preview'' ''true''
   \<and> OptInlineKeyboardMarkup marshal_markup markup =
         setting ''reply_markup'' (structString marshal_markup markup)
   \<and> OptReplyKeyboardMarkup marshal_markup' markup' =
         setting ''reply_markup'' (structString marshal_markup' markup')
   \<and> OptReplyKeyboardRemove marshal_remove =
         setting ''reply_markup'' (structString marshal_remove \<lparr> RemoveKeyboard = True, Selective = False \<rparr>)
   \<and> OptReplyKeyboardRemoveSelective marshal_remove =
         setting ''reply_markup'' (structString marshal_remove \<lparr> RemoveKeyboard = True, Selective = True \<rparr>)
   \<and> OptForceReply marshal_force =
         setting ''reply_markup'' (structString marshal_force \<lparr> ForceReply = True, Selective = False \<rparr>)
   \<and> OptForceReplySelective marshal_force =
         setting ''reply_markup'' (structString marshal_force \<lparr> ForceReply = True, Selective = True \<rparr>)
   \<and> OptDuration duration = setting ''duration'' (strconv_Itoa duration)
   \<and> OptPerformer performer = setting ''performer'' performer
   \<and> OptTitle title = setting ''title'' title
   \<and> OptCaption caption = setting ''caption'' caption
   \<and> OptWidth width = setting ''width'' (strconv_Itoa width)
   \<and> OptHeight height = setting ''height'' (strconv_Itoa height)
   \<and> OptSupportsStreaming = setting ''supports_streaming'' ''true''
   \<and> OptThumb filename = setting ''thumb'' filename
   \<and> OptLength length' = setting ''length'' (fmt_Sprint_int length')
   \<and> OptLivePeriod period = setting ''live_period'' (fmt_Sprint_int period)
   \<and> OptFoursquareID foursquareID = setting ''foursquare_id'' foursquareID
   \<and> OptFoursquareType foursquareType = setting ''foursquare_type'' foursquareType
   \<and> OptLastName lastName = setting ''last_name'' lastName
   \<and> OptVCard vCard = setting ''vcard'' vCard
   \<and> OptOffset offset = setting ''offset'' (fmt_Sprint_int offset)
   \<and> OptLimit limit = setting ''limit'' (fmt_Sprint_int limit)
   \<and> OptUntilDate Unix date = setting ''until_date'' (fmt_Sprint_int (Unix date))
   \<and> OptText text = setting ''text'' text
   \<and> OptShowAlert = setting ''show_alert'' ''true''
   \<and> OptURL u = setting ''url'' u
   \<and> OptCacheTime Seconds to_int d =
         setting ''cache_time'' (fmt_Sprint_int (to_int (Seconds d)))
   \<and> OptContainsMasks = setting ''contains_masks'' ''true''
   \<and> OptMaskPosition marshal_pos pos = setting ''mask_position'' (marshal_pos pos)
   \<and> OptIsPersonal = setting ''is_personal'' ''true''
   \<and> OptNextOffset offset' = setting ''next_offset'' offset'
   \<and> OptSwitchPmText text = setting ''switch_pm_text'' text
   \<and> OptSwitchPmParameter param = setting ''switch_pm_parameter'' param
   \<and> OptProviderData data = setting ''provider_data'' data
   \<and> OptPhotoURL u = setting ''photo_url'' u
   \<and> OptPhotoSize size' = setting ''photo_size'' (fmt_Sprint_int size')
   \<and> OptPhotoWidth width = setting ''photo_width'' (fmt_Sprint_int width)
   \<and> OptPhotoHeight height = setting ''photo_height'' (fmt_Sprint_int height)
   \<and> OptNeedName = setting ''need_name'' ''true''
   \<and> OptNeedPhoneNumber = setting ''need_phone_number'' ''true''
   \<and> OptNeedEmail = setting ''need_email'' ''true''
   \<and> OptNeedShippingAddress = setting ''need_shipping_address'' ''true''
   \<and> OptSendPhoneNumberToProvider = setting ''send_phone_number_to_provider'' ''true''
   \<and> OptSendEmailToProvider = setting ''send_email_to_provider'' ''true''
   \<and> OptIsFlexible = setting ''is_flexible'' ''true''
   \<and> OptShippingOptions marshal_options options =
         setting ''shipping_options'' (marshal_options options)
   \<and> OptErrorMessage msg = setting ''error_message'' msg
   \<and> OptForce = setting ''force'' ''true''
   \<and> OptDisableEditMessage = setting ''disable_edit_message'' ''true''
   \<and> SendMessage recording c chatID text opts
        = DoRequest ''sendMessage''
          (apply_opts (required [(''chat_id'', chatID), (''text'', text)]) opts)
   \<and> call_params (SendMessage recording c chatID text (os @ [setting k x])) k = Some [x]
   \<and> ForwardMessage recording c chatID fromChatID messageID opts
        = DoRequest ''forwardMessage''
          (apply_opts (required [(''chat_id'', chatID), (''from_chat_id'', fromChatID),
                                 (''message_id'', strconv_Itoa messageID)]) opts)
   \<and> call_params (ForwardMessage recording c chatID fromChatID messageID
      (os @ [setting k x])) k = Some [x]
   \<and> SendAudio recording c chatID fileID opts
        = DoRequest ''sendAudio''
          (apply_opts (required [(''chat_id'', chatID), (''audio'', fileID)]) opts)
   \<and> call_params (SendAudio recording c chatID fileID (os @ [setting k x])) k = Some [x]
   \<and> SendAudioFile recording c chatID filename opts
        = DoRequestWithFiles ''sendAudio''
          (apply_opts (required [(''chat_id'', chatID)]) opts)
          (files [\<lparr> field = ''audio'', name = filename \<rparr>])
   \<and> call_params (SendAudioFile recording c chatID filename (os @ [setting k x])) k = Some [x]
   \<and> SendPhoto recording c chatID fileID opts
        = DoRequest ''sendPhoto''
          (apply_opts (required [(''chat_id'', chatID), (''photo'', fileID)]) opts)
   \<and> call_params (SendPhoto recording c chatID fileID (os @ [setting k x])) k = Some [x]
   \<and> SendPhotoFile recording c chatID filename opts
        = DoRequestWithFiles ''sendPhoto''
          (apply_opts (required [(''chat_id'', chatID)]) opts)
          (files [\<lparr> field = ''photo'', name = filename \<rparr>])
   \<and> call_params (SendPhotoFile recording c chatID filename (os @ [setting k x])) k = Some [x]
   \<and> SendDocument recording c chatID fileID opts
        = DoRequest ''sendDocument''
          (apply_opts (required [(''chat_id'', chatID), (''document'', fileID)]) opts)
   \<and> call_params (SendDocument recording c chatID fileID (os @ [setting k x])) k = Some [x]
   \<and> SendDocumentFile recording c chatID filename opts
        = DoRequestWithFiles ''sendDocument''
          (apply_opts (required [(''chat_id'', chatID)]) opts)
          (files [\<lparr> field = ''document'', name = filename \<rparr>])
   \<and> call_params (SendDocumentFile recording c chatID filename (os @ [setting k x])) k = Some [x]
   \<and> SendVideo recording c chatID fileID opts
        = DoRequest ''sendVideo''
          (apply_opts (required [(''chat_id'', chatID), (''video'', fileID)]) opts)
   \<and> call_params (SendVideo recording c chatID fileID (os @ [setting k x])) k = Some [x]
   \<and> SendVideoFile recording c chatID filename opts
        = DoRequestWithFiles ''sendVideo''
          (apply_opts (required [(''chat_id'', chatID)]) opts)
          (files [\<lparr> field = ''video'', name = filename \<rparr>])
   \<and> call_params (SendVideoFile recording c chatID filename (os @ [setting k x])) k = Some [x]
   \<and> SendAnimation recording c chatID fileID opts
        = (let req = apply_opts (required [(''chat_id'', chatID), (''animation'', fileID)]) opts
        in if Values_Get req ''thumb'' = [] then DoRequest ''sendAnimation'' req
           else DoRequestWithFiles ''sendAnimation'' (Values_Del req ''thumb'')
                  (files [\<lparr> field = ''thumb'', name = Values_Get req ''thumb'' \<rparr>]))
   \<and> call_params (SendAnimation recording c chatID fileID (os @ [setting k x])) k
        = (if k = ''thumb'' \<and> x \<noteq> [] then None else Some [x])
   \<and> call_files (SendAnimation recording c chatID fileID (os @ [setting ''thumb'' x]))
        = (if x = [] then [] else [\<lparr> field = ''thumb'', name = x \<rparr>])
   \<and> SendAnimationFile recording c chatID filename opts
        = (let req = apply_opts (required [(''chat_id'', chatID)]) opts
        in if Values_Get req ''thumb'' = []
           then DoRequestWithFiles ''sendAnimation'' req
                  (files [\<lparr> field = ''animation'', name = filename \<rparr>])
           else DoRequestWithFiles ''sendAnimation'' (Values_Del req ''thumb'')
                  (files [\<lparr> field = ''animation'', name = filename \<rparr>,
                          \<lparr> field = ''thumb'', name = Values_Get req ''thumb'' \<rparr>]))
   \<and> call_params (SendAnimationFile recording c chatID filename (os @ [setting k x])) k
        = (if k = ''thumb'' \<and> x \<noteq> [] then None else Some [x])
   \<and> call_files (SendAnimationFile recording c chatID filename (os @ [setting ''thumb'' x]))
        = (if x = [] then [\<lparr> field = ''animation'', name = filename \<rparr>]
           else [\<lparr> field = ''animation'', name = filename \<rparr>,
                 \<lparr> field = ''thumb'', name = x \<rparr>])
   \<and> SendVoice recording c chatID fileID opts
        = DoRequest ''sendVoice''
          (apply_opts (required [(''chat_id'', chatID), (''voice'', fileID)]) opts)
   \<and> call_params (SendVoice recording c chatID fileID (os @ [setting k x])) k = Some [x]
   \<and> SendVoiceFile recording c chatID filename opts
        = DoRequestWithFiles ''sendVoice''
          (apply_opts (required [(''chat_id'', chatID)]) opts)
          (files [\<lparr> field = ''voice'', name = filename \<rparr>])
   \<and> call_params (SendVoiceFile recording c chatID filename (os @ [setting k x])) k = Some [x]
   \<and> SendVideoNote recording c chatID fileID opts
        = (let req = apply_opts (required [(''chat_id'', chatID), (''video_note'', fileID)]) opts
        in if Values_Get req ''thumb'' = [] then DoRequest ''sendVideoNote'' req
           else DoRequestWithFiles ''sendVideoNote'' (Values_Del req ''thumb'')
                  (files [\<lparr> field = ''thumb'', name = Values_Get req ''thumb'' \<rparr>]))
   \<and> call_params (SendVideoNote recording c chatID fileID (os @ [setting k x])) k
        = (if k = ''thumb'' \<and> x \<noteq> [] then None else Some [x])
   \<and> call_files (SendVideoNote recording c chatID fileID (os @ [setting ''thumb'' x]))
        = (if x = [] then [] else [\<lparr> field = ''thumb'', name = x \<rparr>])
   \<and> SendVideoNoteFile recording c chatID filename opts
        = (let req = apply_opts (required [(''chat_id'', chatID)]) opts
        in if Values_Get req ''thumb'' = []
           then DoRequestWithFiles ''sendVideoNote'' req
                  (files [\<lparr> field = ''video_note'', name = filename \<rparr>])
           else DoRequestWithFiles ''sendVideoNote'' (Values_Del req ''thumb'')
                  (files [\<lparr> field = ''video_note'', name = filename \<rparr>,
                          \<lparr> field = ''thumb'', name = Values_Get req ''thumb'' \<rparr>]))
   \<and> call_params (SendVideoNoteFile recording c chatID filename (os @ [setting k x])) k
        = (if k = ''thumb'' \<and> x \<noteq> [] then None else Some [x])
   \<and> call_files (SendVideoNoteFile recording c chatID filename (os @ [setting ''thumb'' x]))
        = (if x = [] then [\<lparr> field = ''video_note'', name = filename \<rparr>]
           else [\<lparr> field = ''video_note'', name = filename \<rparr>,
                 \<lparr> field = ''thumb'', name = x \<rparr>])
   \<and> SendMediaGroup recording marshal_media c chatID media opts
        = DoRequest ''sendMediaGroup''
          (apply_opts (required [(''chat_id'', chatID), (''media'', marshal_media media)]) opts)
   \<and> call_params (SendMediaGroup recording marshal_media c chatID media
      (os @ [setting k x])) k = Some [x]
   \<and> SendLocation recording sprint c chatID latitude longitude opts
        = DoRequest ''sendLocation''
          (apply_opts (required [(''chat_id'', chatID), (''latitude'', sprint latitude),
                                 (''longitude'', sprint longitude)]) opts)
   \<and> call_params (SendLocation recording sprint c chatID latitude longitude
      (os @ [setting k x])) k = Some [x]
   \<and> EditMessageLiveLocation recording sprint c chatID messageID latitude longitude opts
        = DoRequest ''editMessageLiveLocation''
          (apply_opts (required [(''chat_id'', chatID),
                                 (''message_id'', fmt_Sprint_int messageID),
                                 (''latitude'', sprint latitude),
                                 (''longitude'', sprint longitude)]) opts)
   \<and> call_params (EditMessageLiveLocation recording sprint c chatID messageID latitude longitude
      (os @ [setting k x])) k = Some [x]
   \<and> EditInlineMessageLiveLocation recording sprint c inlineMessageID latitude longitude opts
        = DoRequest ''editMessageLiveLocation''
          (apply_opts (required [(''inline_message_id'', inlineMessageID),
                                 (''latitude'', sprint latitude),
                                 (''longitude'', sprint longitude)]) opts)
   \<and> call_params (EditInlineMessageLiveLocation recording sprint c inlineMessageID latitude longitude
      (os @ [setting k x])) k = Some [x]
   \<and> StopMessageLiveLocation recording c chatID messageID opts
        = DoRequest ''stopMessageLiveLocation''
          (apply_opts (required [(''chat_id'', chatID),
                                 (''message_id'', fmt_Sprint_int messageID)]) opts)
   \<and> call_params (StopMessageLiveLocation recording c chatID messageID
      (os @ [setting k x])) k = Some [x]
   \<and> StopInlineMessageLiveLocation recording c inlineMessageID opts
        = DoRequest ''stopMessageLiveLocation''
          (apply_opts (required [(''inline_message_id'', inlineMessageID)]) opts)
   \<and> call_params (StopInlineMessageLiveLocation recording c inlineMessageID
      (os @ [setting k x])) k = Some [x]
   \<and> SendVenue recording sprint c chatID latitude longitude title address opts
        = DoRequest ''sendVenue''
          (apply_opts (required [(''chat_id'', chatID), (''latitude'', sprint latitude),
                                 (''longitude'', sprint longitude), (''title'', title),
                                 (''address'', address)]) opts)
   \<and> call_params (SendVenue recording sprint c chatID latitude longitude title address
      (os @ [setting k x])) k = Some [x]
   \<and> SendContact recording c chatID phoneNumber firstName opts
        = DoRequest ''sendContact''
          (apply_opts (required [(''chat_id'', chatID), (''phone_number'', phoneNumber),
                                 (''first_name'', firstName)]) opts)
   \<and> call_params (SendContact recording c chatID phoneNumber firstName
      (os @ [setting k x])) k = Some [x]
   \<and> GetUserProfilePhotos recording c userID opts
        = DoRequest ''getUserProfilePhotos''
          (apply_opts (required [(''user_id'', fmt_Sprint_int userID)]) opts)
   \<and> call_params (GetUserProfilePhotos recording c userID (os @ [setting k x])) k = Some [x]
   \<and> KickChatMember recording c chatID userID opts
        = DoRequest ''kickChatMember''
          (apply_opts (required [(''chat_id'', chatID), (''user_id'', fmt_Sprint_int userID)]) opts)
   \<and> call_params (KickChatMember recording c chatID userID (os @ [setting k x])) k = Some [x]
   \<and> RestrictChatMember recording c chatID userID (Some r) opts
        = Some (DoRequest ''restrictChatMember''
          (apply_opts (required [(''chat_id'', chatID), (''user_id'', fmt_Sprint_int userID),
                                 (''can_send_messages'', fmt_Sprint_bool (CanSendMessages r)),
                                 (''can_send_media_messages'', fmt_Sprint_bool (CanSendMediaMessages r)),
                                 (''can_send_other_messages'', fmt_Sprint_bool (CanSendOtherMessages r)),
                                 (''can_add_web_page_previews'', fmt_Sprint_bool (CanAddWebPagePreviews r))]) opts))
   \<and> map_option (\<lambda>sent. call_params sent k)
          (RestrictChatMember recording c chatID userID (Some r)
              (os @ [setting k x])) = Some (Some [x])
   \<and> PinChatMessage recording c chatID messageID opts
        = DoRequest ''pinChatMessage''
          (apply_opts (required [(''chat_id'', chatID),
                                 (''message_id'', fmt_Sprint_int messageID)]) opts)
   \<and> call_params (PinChatMessage recording c chatID messageID (os @ [setting k x])) k = Some [x]
   \<and> AnswerCallbackQuery recording c callbackQueryID opts
        = DoRequest ''answerCallbackQuery''
          (apply_opts (required [(''callback_query_id'', callbackQueryID)]) opts)
   \<and> call_params (AnswerCallbackQuery recording c callbackQueryID (os @ [setting k x])) k = Some [x]
   \<and> EditMessageText recording c chatID messageID text opts
        = DoRequest ''editMessageText''
          (apply_opts (required [(''chat_id'', chatID),
                                 (''message_id'', fmt_Sprint_int messageID), (''text'', text)]) opts)
   \<and> call_params (EditMessageText recording c chatID messageID text (os @ [setting k x])) k = Some [x]
   \<and> EditInlineMessageText recording c inlineMessageID text opts
        = DoRequest ''editMessageText''
          (apply_opts (required [(''inline_message_id'', inlineMessageID), (''text'', text)]) opts)
   \<and> call_params (EditInlineMessageText recording c inlineMessageID text
      (os @ [setting k x])) k = Some [x]
   \<and> EditMessageCaption recording c chatID messageID caption opts
        = DoRequest ''editMessageCaption''
          (apply_opts (required [(''chat_id'', chatID),
                                 (''message_id'', fmt_Sprint_int messageID),
                                 (''caption'', caption)]) opts)
   \<and> call_params (EditMessageCaption recording c chatID messageID caption
      (os @ [setting k x])) k = Some [x]
   \<and> EditInlineMessageCaption recording c inlineMessageID caption opts
        = DoRequest ''editMessageCaption''
          (apply_opts (required [(''inline_message_id'', inlineMessageID),
                                 (''caption'', caption)]) opts)
   \<and> call_params (EditInlineMessageCaption recording c inlineMessageID caption
      (os @ [setting k x])) k = Some [x]
   \<and> EditMessageReplyMarkup recording c chatID messageID opts
        = DoRequest ''editMessageReplyMarkup''
          (apply_opts (required [(''chat_id'', chatID),
                                 (''message_id'', fmt_Sprint_int messageID)]) opts)
   \<and> call_params (EditMessageReplyMarkup recording c chatID messageID
      (os @ [setting k x])) k = Some [x]
   \<and> EditInlineMessageReplyMarkup recording c inlineMessageID opts
        = DoRequest ''editMessageReplyMarkup''
          (apply_opts (required [(''inline_message_id'', inlineMessageID)]) opts)
   \<and> call_params (EditInlineMessageReplyMarkup recording c inlineMessageID
      (os @ [setting k x])) k = Some [x]
   \<and> SendStickerFile recording c chatID filename opts
        = DoRequestWithFiles ''sendSticker''
          (apply_opts (required [(''chat_id'', chatID)]) opts)
          (files [\<lparr> field = ''sticker'', name = filename \<rparr>])
   \<and> call_params (SendStickerFile recording c chatID filename (os @ [setting k x])) k = Some [x]
   \<and> SendStickerReader recording c chatID r' opts
        = DoRequestWithFiles ''sendSticker''
          (apply_opts (required [(''chat_id'', chatID)]) opts)
          (readers [''sticker'' \<mapsto> r'])
   \<and> call_params (SendStickerReader recording c chatID r' (os @ [setting k x])) k = Some [x]
   \<and> SendSticker recording c chatID fileID opts
        = DoRequest ''sendSticker''
          (apply_opts (required [(''chat_id'', chatID), (''sticker'', fileID)]) opts)
   \<and> call_params (SendSticker recording c chatID fileID (os @ [setting k x])) k = Some [x]
   \<and> CreateNewStickerSetFile recording c userID name' title stickerFilename emojis opts
        = DoRequestWithFiles ''createNewStickerSet''
          (apply_opts (required [(''user_id'', fmt_Sprint_int userID), (''name'', name'),
                                 (''title'', title), (''emojis'', emojis)]) opts)
          (files [\<lparr> field = ''png_sticker'', name = stickerFilename \<rparr>])
   \<and> call_params (CreateNewStickerSetFile recording c userID name' title stickerFilename emojis
      (os @ [setting k x])) k = Some [x]
   \<and> CreateNewStickerSetReader recording c userID name' title r' emojis opts
        = DoRequestWithFiles ''createNewStickerSet''
          (apply_opts (required [(''user_id'', fmt_Sprint_int userID), (''name'', name'),
                                 (''title'', title), (''emojis'', emojis)]) opts)
          (readers [''png_sticker'' \<mapsto> r'])
   \<and> call_params (CreateNewStickerSetReader recording c userID name' title r' emojis
      (os @ [setting k x])) k = Some [x]
   \<and> CreateNewStickerSet recording c userID name' title fileID emojis opts
        = DoRequest ''createNewStickerSet''
          (apply_opts (required [(''user_id'', fmt_Sprint_int userID), (''name'', name'),
                                 (''title'', title), (''png_sticker'', fileID),
                                 (''emojis'', emojis)]) opts)
   \<and> call_params (CreateNewStickerSet recording c userID name' title fileID emojis
      (os @ [setting k x])) k = Some [x]
   \<and> AddStickerToSetFile recording c userID name' filename emojis opts
        = DoRequestWithFiles ''addStickerToSet''
          (apply_opts (required [(''user_id'', fmt_Sprint_int userID), (''name'', name'),
                                 (''emojis'', emojis)]) opts)
          (files [\<lparr> field = ''png_sticker'', name = filename \<rparr>])
   \<and> call_params (AddStickerToSetFile recording c userID name' filename emojis
      (os @ [setting k x])) k = Some [x]
   \<and> AddStickerToSetReader recording c userID name' r' emojis opts
        = DoRequestWithFiles ''addStickerToSet''
          (apply_opts (required [(''user_id'', fmt_Sprint_int userID), (''name'', name'),
                                 (''emojis'', emojis)]) opts)
          (readers [''png_sticker'' \<mapsto> r'])
   \<and> call_params (AddStickerToSetReader recording c userID name' r' emojis
      (os @ [setting k x])) k = Some [x]
   \<and> AddStickerToSet recording c userID name' fileID emojis opts
        = DoRequest ''addStickerToSet''
          (apply_opts (required [(''user_id'', fmt_Sprint_int userID), (''name'', name'),
                                 (''png_sticker'', fileID), (''emojis'', emojis)]) opts)
   \<and> call_params (AddStickerToSet recording c userID name' fileID emojis
      (os @ [setting k x])) k = Some [x]
   \<and> AnswerInlineQuery recording marshal_results c inlineQueryID results opts
        = DoRequest ''answerInlineQuery''
          (apply_opts (required [(''inline_query_id'', inlineQueryID),
                                 (''results'', marshal_results results)]) opts)
   \<and> call_params (AnswerInlineQuery recording marshal_results c inlineQueryID results
      (os @ [setting k x])) k = Some [x]
   \<and> SendInvoice recording marshal_prices c chatID payload providerToken (Some invoice) prices opts
        = Some (DoRequest ''sendInvoice''
          (apply_opts (required [(''chat_id'', chatID), (''title'', Title invoice),
                                 (''description'', Description invoice),
                                 (''payload'', payload), (''provider_token'', providerToken),
                                 (''start_parameter'', StartParameter invoice),
                                 (''currency'', Currency invoice),
                                 (''prices'', marshal_prices prices)]) opts))
   \<and> map_option (\<lambda>sent. call_params sent k)
          (SendInvoice recording marshal_prices c chatID payload providerToken (Some invoice) prices
              (os @ [setting k x])) = Some (Some [x])
   \<and> AnswerShippingQuery recording c shippingQueryID ok opts
        = DoRequest ''answerShippingQuery''
          (apply_opts (required [(''shipping_query_id'', shippingQueryID),
                                 (''ok'', fmt_Sprint_bool ok)]) opts)
   \<and> call_params (AnswerShippingQuery recording c shippingQueryID ok (os @ [setting k x])) k = Some [x]
   \<and> AnswerPreCheckoutQuery recording c preCheckoutQueryID ok opts
        = DoRequest ''answerPreCheckoutQuery''
          (apply_opts (required [(''pre_checkout_query_id'', preCheckoutQueryID),
                                 (''ok'', fmt_Sprint_bool ok)]) opts)
   \<and> call_params (AnswerPreCheckoutQuery recording c preCheckoutQueryID ok
      (os @ [setting k x])) k = Some [x]
   \<and> SendGame recording c chatID gameShortName opts
        = DoRequest ''sendGame''
          (apply_opts (required [(''chat_id'', chatID), (''game_short_name'', gameShortName)]) opts)
   \<and> call_params (SendGame recording c chatID gameShortName (os @ [setting k x])) k = Some [x]
   \<and> SetGameScore recording c chatID messageID userID score opts
        = DoRequest ''setGameScore''
          (apply_opts (required [(''chat_id'', chatID),
                                 (''message_id'', fmt_Sprint_int messageID),
                                 (''user_id'', fmt_Sprint_int userID),
                                 (''score'', fmt_Sprint_int score)]) opts)
   \<and> call_params (SetGameScore recording c chatID messageID userID score
      (os @ [setting k x])) k = Some [x]
   \<and> SetInlineGameScore recording c inlineMessageID userID score opts
        = DoRequest ''setGameScore''
          (apply_opts (required [(''inline_message_id'', inlineMessageID),
                                 (''user_id'', fmt_Sprint_int userID),
                                 (''score'', fmt_Sprint_int score)]) opts)
   \<and> call_params (SetInlineGameScore recording c inlineMessageID userID score
      (os @ [setting k x])) k = Some [x]
   \<and> SendPoll recording marshal_options' c chatID question options' opts
        = DoRequest ''sendPoll''
          (apply_opts (required [(''chat_id'', chatID), (''question'', question),
                                 (''options'', marshal_options' options')]) opts)
   \<and> call_params (SendPoll recording marshal_options' c chatID question options'
      (os @ [setting k x])) k = Some [x]
   \<and> StopPoll recording c chatID messageID' opts
        = DoRequest ''stopPoll''
          (apply_opts (required [(''chat_id'', chatID), (''message_id'', messageID')]) opts)
   \<and> call_params (StopPoll recording c chatID messageID' (os @ [setting k x])) k = Some [x]
   \<and> call_params (SendMessage recording c chatID text (os @ [OptText x])) ''text'' = Some [x]"
  apply (intro conjI)
  apply (rule apply_opts_Nil)
  apply (rule apply_opts_snoc)
  apply (rule setting_upd)
  apply (rule OptParseModeHTML_setting)
  apply (rule OptParseModeMarkdown_setting)
  apply (rule OptDisableNotification_setting)
  apply (rule OptReplyToMessageID_setting)
  apply (rule OptDisableWebPagePreview_setting)
  apply (rule OptInlineKeyboardMarkup_setting)
  apply (rule OptReplyKeyboardMarkup_setting)
  apply (rule OptReplyKeyboardRemove_setting)
  apply (rule OptReplyKeyboardRemoveSelective_setting)
  apply (rule OptForceReply_setting)
  apply (rule OptForceReplySelective_setting)
  apply (rule OptDuration_setting)
  apply (rule OptPerformer_setting)
  apply (rule OptTitle_setting)
  apply (rule OptCaption_setting)
  apply (rule OptWidth_setting)
  apply (rule OptHeight_setting)
  apply (rule OptSupportsStreaming_setting)
  apply (rule OptThumb_setting)
  apply (rule OptLength_setting)
  apply (rule OptLivePeriod_setting)
  apply (rule OptFoursquareID_setting)
  apply (rule OptFoursquareType_setting)
  apply (rule OptLastName_setting)
  apply (rule OptVCard_setting)
  apply (rule OptOffset_setting)
  apply (rule OptLimit_setting)
  apply (rule OptUntilDate_setting)
  apply (rule OptText_setting)
  apply (rule OptShowAlert_setting)
  apply (rule OptURL_setting)
  apply (rule OptCacheTime_setting)
  apply (rule OptContainsMasks_setting)
  apply (rule OptMaskPosition_setting)
  apply (rule OptIsPersonal_setting)
  apply (rule OptNextOffset_setting)
  apply (rule OptSwitchPmText_setting)
  apply (rule OptSwitchPmParameter_setting)
  apply (rule OptProviderData_setting)
  apply (rule OptPhotoURL_setting)
  apply (rule OptPhotoSize_setting)
  apply (rule OptPhotoWidth_setting)
  apply (rule OptPhotoHeight_setting)
  apply (rule OptNeedName_setting)
  apply (rule OptNeedPhoneNumber_setting)
  apply (rule OptNeedEmail_setting)
  apply (rule OptNeedShippingAddress_setting)
  apply (rule OptSendPhoneNumberToProvider_setting)
  apply (rule OptSendEmailToProvider_setting)
  apply (rule OptIsFlexible_setting)
  apply (rule OptShippingOptions_setting)
  apply (rule OptErrorMessage_setting)
  apply (rule OptForce_setting)
  apply (rule OptDisableEditMessage_setting)
  apply (rule SendMessage_call)
  apply (rule SendMessage_last)
  apply (rule ForwardMessage_call)
  apply (rule ForwardMessage_last)
  apply (rule SendAudio_call)
  apply (rule SendAudio_last)
  apply (rule SendAudioFile_call)
  apply (rule SendAudioFile_last)
  apply (rule SendPhoto_call)
  apply (rule SendPhoto_last)
  apply (rule SendPhotoFile_call)
  apply (rule SendPhotoFile_last)
  apply (rule SendDocument_call)
  apply (rule SendDocument_last)
  apply (rule SendDocumentFile_call)
  apply (rule SendDocumentFile_last)
  apply (rule SendVideo_call)
  apply (rule SendVideo_last)
  apply (rule SendVideoFile_call)
  apply (rule SendVideoFile_last)
  apply (rule SendAnimation_call)
  apply (rule SendAnimation_last)
  apply (rule SendAnimation_moved)
  apply (rule SendAnimationFile_call)
  apply (rule SendAnimationFile_last)
  apply (rule SendAnimationFile_moved)
  apply (rule SendVoice_call)
  apply (rule SendVoice_last)
  apply (rule SendVoiceFile_call)
  apply (rule SendVoiceFile_last)
  apply (rule SendVideoNote_call)
  apply (rule SendVideoNote_last)
  apply (rule SendVideoNote_moved)
  apply (rule SendVideoNoteFile_call)
  apply (rule SendVideoNoteFile_last)
  apply (rule SendVideoNoteFile_moved)
  apply (rule SendMediaGroup_call)
  apply (rule SendMediaGroup_last)
  apply (rule SendLocation_call)
  apply (rule SendLocation_last)
  apply (rule EditMessageLiveLocation_call)
  apply (rule EditMessageLiveLocation_last)
  apply (rule EditInlineMessageLiveLocation_call)
  apply (rule EditInlineMessageLiveLocation_last)
  apply (rule StopMessageLiveLocation_call)
  apply (rule StopMessageLiveLocation_last)
  apply (rule StopInlineMessageLiveLocation_call)
  apply (rule StopInlineMessageLiveLocation_last)
  apply (rule SendVenue_call)
  apply (rule SendVenue_last)
  apply (rule SendContact_call)
  apply (rule SendContact_last)
  apply (rule GetUserProfilePhotos_call)
  apply (rule GetUserProfilePhotos_last)
  apply (rule KickChatMember_call)
  apply (rule KickChatMember_last)
  apply (rule RestrictChatMember_call)
  apply (rule RestrictChatMember_last)
  apply (rule PinChatMessage_call)
  apply (rule PinChatMessage_last)
  apply (rule AnswerCallbackQuery_call)
  apply (rule AnswerCallbackQuery_last)
  apply (rule EditMessageText_call)
  apply (rule EditMessageText_last)
  apply (rule EditInlineMessageText_call)
  apply (rule EditInlineMessageText_last)
  apply (rule EditMessageCaption_call)
  apply (rule EditMessageCaption_last)
  apply (rule EditInlineMessageCaption_call)
  apply (rule EditInlineMessageCaption_last)
  apply (rule EditMessageReplyMarkup_call)
  apply (rule EditMessageReplyMarkup_last)
  apply (rule EditInlineMessageReplyMarkup_call)
  apply (rule EditInlineMessageReplyMarkup_last)
  apply (rule SendStickerFile_call)
  apply (rule SendStickerFile_last)
  apply (rule SendStickerReader_call)
  apply (rule SendStickerReader_last)
  apply (rule SendSticker_call)
  apply (rule SendSticker_last)
  apply (rule CreateNewStickerSetFile_call)
  apply (rule CreateNewStickerSetFile_last)
  apply (rule CreateNewStickerSetReader_call)
  apply (rule CreateNewStickerSetReader_last)
  apply (rule CreateNewStickerSet_call)
  apply (rule CreateNewStickerSet_last)
  apply (rule AddStickerToSetFile_call)
  apply (rule AddStickerToSetFile_last)
  apply (rule AddStickerToSetReader_call)
  apply (rule AddStickerToSetReader_last)
  apply (rule AddStickerToSet_call)
  apply (rule AddStickerToSet_last)
  apply (rule AnswerInlineQuery_call)
  apply (rule AnswerInlineQuery_last)
  apply (rule SendInvoice_call)
  apply (rule SendInvoice_last)
  apply (rule AnswerShippingQuery_call)
  apply (rule AnswerShippingQuery_last)
  apply (rule AnswerPreCheckoutQuery_call)
  apply (rule AnswerPreCheckoutQuery_last)
  apply (rule SendGame_call)
  apply (rule SendGame_last)
  apply (rule SetGameScore_call)
  apply (rule SetGameScore_last)
  apply (rule SetInlineGameScore_call)
  apply (rule SetInlineGameScore_last)
  apply (rule SendPoll_call)
  apply (rule SendPoll_last)
  apply (rule StopPoll_call)
  apply (rule StopPoll_last)
  apply (rule SendMessage_overrides_text)
  done

end
